theory Spec2Isabelle
  imports Complex_Main
begin

section \<open>Python values, errors and pandas frames\<close>

text \<open>
  The notebook \<^verbatim>\<open>tutorials/statisticalEstimates/_0.ipynb\<close> is a sequence of code cells
  run against one Jupyter kernel. An exception ends the cell (and a top-to-bottom run)
  at once, so every cell is a function into \<open>py_error + _\<close>.
\<close>

datatype py_error = NameError string | ValueError string

datatype cell = FloatV real | IntV int | StrV string | NaN

definition bind_e :: "py_error + 'a \<Rightarrow> ('a \<Rightarrow> py_error + 'b) \<Rightarrow> py_error + 'b" where
  "bind_e m f = (case m of Inl e \<Rightarrow> Inl e | Inr a \<Rightarrow> f a)"

text \<open>
  A pandas \<^verbatim>\<open>DataFrame\<close>: its row index and its columns in order, each column holding one
  cell per row. The number of rows is the length of the index.
\<close>

record dataframe =
  index :: "nat list"
  cols :: "(string \<times> cell list) list"

definition nrows :: "dataframe \<Rightarrow> nat" where
  "nrows d = length (index d)"

definition columns :: "dataframe \<Rightarrow> string list" where
  "columns d = map fst (cols d)"

definition col :: "dataframe \<Rightarrow> string \<Rightarrow> cell list option" where
  "col d c = map_of (cols d) c"

fun set_col :: "string \<Rightarrow> cell list \<Rightarrow> (string \<times> cell list) list \<Rightarrow> (string \<times> cell list) list" where
  "set_col c vs [] = [(c, vs)]"
| "set_col c vs ((c', ws) # rest) =
     (if c' = c then (c, vs) # rest else (c', ws) # set_col c vs rest)"

text \<open>
  \<^verbatim>\<open>pd.DataFrame(data, columns=names)\<close> on a two-dimensional array: a fresh frame
  with the range index; pandas raises \<^verbatim>\<open>ValueError\<close> when the width of the data is
  not the number of column names.
\<close>

definition DataFrame :: "real list list \<Rightarrow> string list \<Rightarrow> py_error + dataframe" where
  "DataFrame data cs =
     (if list_all (\<lambda>row. length row = length cs) data
      then Inr \<lparr>index = [0..<length data],
                cols = map (\<lambda>(j, c). (c, map (\<lambda>row. FloatV (row ! j)) data)) (enumerate 0 cs)\<rparr>
      else Inl (ValueError ''Shape of passed values does not match the columns''))"

text \<open>
  \<^verbatim>\<open>d.loc[:, c] = v\<close>: with a scalar, every row gets it; with an array, its length
  must be the number of rows. A column that exists is replaced in place, a new one is added
  last. Setting a column from an array on a frame that has no rows enlarges the frame
  instead of raising: pandas takes the index from the array, and the other columns of the
  frame become null.
\<close>

definition loc_set_scalar :: "dataframe \<Rightarrow> string \<Rightarrow> cell \<Rightarrow> dataframe" where
  "loc_set_scalar d c v = d\<lparr>cols := set_col c (replicate (nrows d) v) (cols d)\<rparr>"

definition loc_set_array :: "dataframe \<Rightarrow> string \<Rightarrow> cell list \<Rightarrow> py_error + dataframe" where
  "loc_set_array d c vs =
     (if nrows d = 0
      then Inr \<lparr>index = [0..<length vs],
                cols = set_col c vs
                  (map (\<lambda>(c', ws). (c', replicate (length vs) NaN)) (cols d))\<rparr>
      else if length vs = nrows d then Inr (d\<lparr>cols := set_col c vs (cols d)\<rparr>)
      else Inl (ValueError ''Length of values does not match length of index''))"

text \<open>
  \<^verbatim>\<open>pd.concat(frames, axis=0)\<close> with the defaults the notebook uses (outer join,
  index kept): the indexes are chained, the columns are the union of the frames' columns in
  order of first appearance, a frame that lacks a column contributes nulls, and a numeric
  column that holds a null or a float is stored as float64. On an empty list pandas raises
  \<^verbatim>\<open>ValueError\<close>.
\<close>

definition all_columns :: "dataframe list \<Rightarrow> string list" where
  "all_columns fs = rev (remdups (rev (concat (map columns fs))))"

definition col_block :: "string \<Rightarrow> dataframe \<Rightarrow> cell list" where
  "col_block c f = (case col f c of None \<Rightarrow> replicate (nrows f) NaN | Some vs \<Rightarrow> vs)"

fun is_str :: "cell \<Rightarrow> bool" where
  "is_str (StrV s) = True"
| "is_str v = False"

fun is_int :: "cell \<Rightarrow> bool" where
  "is_int (IntV n) = True"
| "is_int v = False"

fun to_float :: "cell \<Rightarrow> cell" where
  "to_float (IntV n) = FloatV (of_int n)"
| "to_float v = v"

definition upcast :: "cell list \<Rightarrow> cell list" where
  "upcast vs =
     (if \<not> list_ex is_str vs \<and> list_ex (\<lambda>v. \<not> is_int v) vs then map to_float vs else vs)"

definition pd_concat :: "dataframe list \<Rightarrow> py_error + dataframe" where
  "pd_concat fs =
     (if fs = [] then Inl (ValueError ''No objects to concatenate'')
      else Inr \<lparr>index = concat (map index fs),
                cols = map (\<lambda>c. (c, upcast (concat (map (col_block c) fs)))) (all_columns fs)\<rparr>)"

section \<open>numpy's random module\<close>

text \<open>
  The notebook calls \<^verbatim>\<open>np.random.multivariate_normal(mean, cov, size=n)\<close> and
  \<^verbatim>\<open>np.random.randint(low=l, high=h, size=n)\<close>. Both read and advance numpy's
  process-wide generator; no cell seeds it or passes a generator. The generator state is
  the field \<open>rng\<close> of the kernel below, and the two library functions are a parameter of
  the model: each takes the generator state and returns its draw with the next state.
  Floating-point numbers are read as reals.
\<close>

record 'g numpy =
  multivariate_normal :: "'g \<Rightarrow> real list \<Rightarrow> real list list \<Rightarrow> nat \<Rightarrow> py_error + (real list list \<times> 'g)"
  randint :: "'g \<Rightarrow> int \<Rightarrow> int \<Rightarrow> nat \<Rightarrow> py_error + (int list \<times> 'g)"

definition shape_ok :: "real list \<Rightarrow> real list list \<Rightarrow> bool" where
  "shape_ok mean cov \<longleftrightarrow>
     length cov = length mean \<and> list_all (\<lambda>row. length row = length mean) cov"

text \<open>
  What the library documents and the proofs rely on: for a square covariance of the mean's
  dimension, \<^verbatim>\<open>multivariate_normal\<close> returns \<open>n\<close> vectors of that dimension (with the
  default \<^verbatim>\<open>check_valid='warn'\<close> a covariance that is not symmetric
  positive-semidefinite gives a warning, not an exception); for \<open>low < high\<close>,
  \<^verbatim>\<open>randint\<close> returns \<open>n\<close> integers of the half-open interval from \<open>low\<close> to \<open>high\<close>.
\<close>

definition numpy_contract :: "'g numpy \<Rightarrow> bool" where
  "numpy_contract np \<longleftrightarrow>
     (\<forall>g mean cov n. shape_ok mean cov \<longrightarrow>
        (\<exists>X g'. multivariate_normal np g mean cov n = Inr (X, g') \<and> length X = n \<and>
                 list_all (\<lambda>row. length row = length mean) X)) \<and>
     (\<forall>g low high n. low < high \<longrightarrow>
        (\<exists>F g'. randint np g low high n = Inr (F, g') \<and> length F = n \<and>
                 list_all (\<lambda>v. low \<le> v \<and> v < high) F))"

text \<open>
  A deterministic stand-in for the library, used to run the cells on concrete inputs: the
  generator state is a counter, and every draw is computed from it.
\<close>

definition counter_numpy :: "nat numpy" where
  "counter_numpy =
     \<lparr>multivariate_normal = (\<lambda>g mean cov n.
        if shape_ok mean cov
        then Inr (map (\<lambda>i. map (\<lambda>m. m + real (g + i)) mean) [0..<n], g + n)
        else Inl (ValueError ''cov must be 2 dimensional and square'')),
      randint = (\<lambda>g low high n.
        if low < high
        then Inr (map (\<lambda>i. low + int (g + i) mod (high - low)) [0..<n], g + n)
        else Inl (ValueError ''low >= high''))\<rparr>"

section \<open>The notebook\<close>

subsection \<open>Setup cell\<close>

definition num_samples :: nat where
  "num_samples = 1000"

definition mu :: "real list" where
  "mu = replicate 4 0"

definition names :: "string list" where
  "names = [''job_sat'', ''int_qui'', ''age'', ''org_tnr'']"

subsection \<open>The covariance matrices of the five cells\<close>

definition r_micro :: "real list list" where
  "r_micro = [
        [  1.00, -0.40, -0.03,  0.11],
        [ -0.40,  1.00, -0.05, -0.09],
        [ -0.03, -0.05,  1.00,  0.05],
        [  0.11, -0.09,  0.05,  1.00]
    ]"

definition r_small :: "real list list" where
  "r_small = [
        [  1.00, -0.30, -0.03,  0.11],
        [ -0.30,  1.00, -0.05, -0.09],
        [ -0.03, -0.05,  1.00,  0.05],
        [  0.11, -0.09,  0.05,  1.00]
    ]"

definition r_medium :: "real list list" where
  "r_medium = [
        [  1.00, -0.25, -0.03,  0.11],
        [ -0.25,  1.00, -0.05, -0.09],
        [ -0.03, -0.05,  1.00,  0.05],
        [  0.11, -0.09,  0.05,  1.00]
    ]"

definition r_large :: "real list list" where
  "r_large = [
        [  1.00, -0.20, -0.03,  0.11],
        [ -0.20,  1.00, -0.05, -0.09],
        [ -0.03, -0.05,  1.00,  0.05],
        [  0.11, -0.09,  0.05,  1.00]
    ]"

definition r_very_large :: "real list list" where
  "r_very_large = [
        [  1.00, -0.15, -0.03,  0.11],
        [ -0.15,  1.00, -0.05, -0.09],
        [ -0.03, -0.05,  1.00,  0.05],
        [  0.11, -0.09,  0.05,  1.00]
    ]"

subsection \<open>The kernel and the cells\<close>

text \<open>
  The kernel's namespace, as far as the notebook's cells read or write it: the five
  per-cohort frames, the assembled frame, and numpy's generator. A name is \<open>None\<close>
  while it is unbound; reading it then raises \<^verbatim>\<open>NameError\<close>. Every binding the
  notebook makes is to a frame built afresh (by \<^verbatim>\<open>pd.DataFrame\<close> or
  \<^verbatim>\<open>pd.concat\<close>), so two names never share a frame, and a frame a cell mutates
  through \<^verbatim>\<open>.loc\<close> is reachable under one name only: frames are values here.
  The field \<open>df_501\<close> is the notebook's \<^verbatim>\<open>df_501_\<close> (a name cannot end
  in an underscore here).
\<close>

record 'g kernel =
  df_1_5 :: "dataframe option"
  df_6_25 :: "dataframe option"
  df_26_100 :: "dataframe option"
  df_101_500 :: "dataframe option"
  df_501 :: "dataframe option"
  df :: "dataframe option"
  rng :: 'g

definition lookup_name :: "string \<Rightarrow> 'a option \<Rightarrow> py_error + 'a" where
  "lookup_name x v = (case v of None \<Rightarrow> Inl (NameError x) | Some d \<Rightarrow> Inr d)"

text \<open>
  The statement
  \<^verbatim>\<open>pd.DataFrame(np.random.multivariate_normal(mu, r, size=num_samples), columns=names)\<close>
  that each of the five sampling cells runs on the matrix \<open>r\<close> it has just bound.
\<close>

definition sample_frame :: "'g numpy \<Rightarrow> 'g \<Rightarrow> real list list \<Rightarrow> py_error + (dataframe \<times> 'g)" where
  "sample_frame np g r =
     bind_e (multivariate_normal np g mu r num_samples) (\<lambda>(X, g1).
     bind_e (DataFrame X names) (\<lambda>d.
     Inr (d, g1)))"

definition cell_micro :: "'g numpy \<Rightarrow> 'g kernel \<Rightarrow> py_error + 'g kernel" where
  "cell_micro np k =
     bind_e (sample_frame np (rng k) r_micro) (\<lambda>(d, g1).
     bind_e (randint np g1 1 5 num_samples) (\<lambda>(F, g2).
     bind_e (loc_set_array (loc_set_scalar d ''cohort'' (StrV ''micro''))
               ''firm_size'' (map IntV F)) (\<lambda>d'.
     Inr (k\<lparr>df_1_5 := Some d', rng := g2\<rparr>))))"

definition cell_small :: "'g numpy \<Rightarrow> 'g kernel \<Rightarrow> py_error + 'g kernel" where
  "cell_small np k =
     bind_e (sample_frame np (rng k) r_small) (\<lambda>(d, g1).
     bind_e (randint np g1 6 25 num_samples) (\<lambda>(F, g2).
     bind_e (loc_set_array (loc_set_scalar d ''cohort'' (StrV ''large''))
               ''firm_size'' (map IntV F)) (\<lambda>d'.
     Inr (k\<lparr>df_6_25 := Some d', rng := g2\<rparr>))))"

definition cell_medium :: "'g numpy \<Rightarrow> 'g kernel \<Rightarrow> py_error + 'g kernel" where
  "cell_medium np k =
     bind_e (sample_frame np (rng k) r_medium) (\<lambda>(d, g1).
     bind_e (randint np g1 26 100 num_samples) (\<lambda>(F, g2).
     bind_e (loc_set_array (loc_set_scalar d ''cohort'' (StrV ''medium''))
               ''firm_size'' (map IntV F)) (\<lambda>d'.
     Inr (k\<lparr>df_26_100 := Some d', rng := g2\<rparr>))))"

text \<open>
  The large-firms cell labels \<^verbatim>\<open>df_101_500\<close> and then assigns the firm sizes to
  \<^verbatim>\<open>df_501_\<close>: the right-hand side is drawn first, then the name \<^verbatim>\<open>df_501_\<close>
  is read.
\<close>

definition cell_large :: "'g numpy \<Rightarrow> 'g kernel \<Rightarrow> py_error + 'g kernel" where
  "cell_large np k =
     bind_e (sample_frame np (rng k) r_large) (\<lambda>(d, g1).
     bind_e (randint np g1 101 500 num_samples) (\<lambda>(F, g2).
     bind_e (lookup_name ''df_501_'' (df_501 k)) (\<lambda>old.
     bind_e (loc_set_array old ''firm_size'' (map IntV F)) (\<lambda>old'.
     Inr (k\<lparr>df_101_500 := Some (loc_set_scalar d ''cohort'' (StrV ''large'')),
            df_501 := Some old', rng := g2\<rparr>)))))"

text \<open>
  The same cell with the kernel it leaves behind when a statement raises. The first
  statement binds \<^verbatim>\<open>df_101_500\<close> and the second labels it; the third draws the
  firm sizes, then reads \<^verbatim>\<open>df_501_\<close>, then assigns. A statement that raises ends
  the cell, and what the statements before it did stays: the binding of
  \<^verbatim>\<open>df_101_500\<close> and the draws taken from the generator. A library call that
  raises has not drawn (numpy checks its arguments first), so it leaves the generator as
  it was.
\<close>

definition cell_large_trace :: "'g numpy \<Rightarrow> 'g kernel \<Rightarrow> 'g kernel \<times> py_error option" where
  "cell_large_trace np k =
     (case multivariate_normal np (rng k) mu r_large num_samples of
        Inl e \<Rightarrow> (k, Some e)
      | Inr (X, g1) \<Rightarrow>
         (case DataFrame X names of
            Inl e \<Rightarrow> (k\<lparr>rng := g1\<rparr>, Some e)
          | Inr d \<Rightarrow>
             (case randint np g1 101 500 num_samples of
                Inl e \<Rightarrow>
                  (k\<lparr>df_101_500 := Some (loc_set_scalar d ''cohort'' (StrV ''large'')),
                     rng := g1\<rparr>, Some e)
              | Inr (F, g2) \<Rightarrow>
                 (case lookup_name ''df_501_'' (df_501 k) of
                    Inl e \<Rightarrow>
                      (k\<lparr>df_101_500 := Some (loc_set_scalar d ''cohort'' (StrV ''large'')),
                         rng := g2\<rparr>, Some e)
                  | Inr old \<Rightarrow>
                     (case loc_set_array old ''firm_size'' (map IntV F) of
                        Inl e \<Rightarrow>
                          (k\<lparr>df_101_500 := Some (loc_set_scalar d ''cohort'' (StrV ''large'')),
                             rng := g2\<rparr>, Some e)
                      | Inr old' \<Rightarrow>
                          (k\<lparr>df_101_500 := Some (loc_set_scalar d ''cohort'' (StrV ''large'')),
                             df_501 := Some old', rng := g2\<rparr>, None))))))"

definition cell_very_large :: "'g numpy \<Rightarrow> 'g kernel \<Rightarrow> py_error + 'g kernel" where
  "cell_very_large np k =
     bind_e (sample_frame np (rng k) r_very_large) (\<lambda>(d, g1).
     bind_e (randint np g1 501 2000 num_samples) (\<lambda>(F, g2).
     bind_e (loc_set_array (loc_set_scalar d ''cohort'' (StrV ''very large''))
               ''firm_size'' (map IntV F)) (\<lambda>d'.
     Inr (k\<lparr>df_501 := Some d', rng := g2\<rparr>))))"

definition cell_prep :: "'g kernel \<Rightarrow> py_error + 'g kernel" where
  "cell_prep k =
     bind_e (lookup_name ''df_1_5'' (df_1_5 k)) (\<lambda>d1.
     bind_e (lookup_name ''df_6_25'' (df_6_25 k)) (\<lambda>d2.
     bind_e (lookup_name ''df_26_100'' (df_26_100 k)) (\<lambda>d3.
     bind_e (lookup_name ''df_101_500'' (df_101_500 k)) (\<lambda>d4.
     bind_e (lookup_name ''df_501_'' (df_501 k)) (\<lambda>d5.
     bind_e (pd_concat [d1, d2, d3, d4, d5]) (\<lambda>d.
     Inr (k\<lparr>df := Some d\<rparr>)))))))"

text \<open>Running the data cells top to bottom.\<close>

definition run_all :: "'g numpy \<Rightarrow> 'g kernel \<Rightarrow> py_error + 'g kernel" where
  "run_all np k =
     bind_e (cell_micro np k) (\<lambda>k1.
     bind_e (cell_small np k1) (\<lambda>k2.
     bind_e (cell_medium np k2) (\<lambda>k3.
     bind_e (cell_large np k3) (\<lambda>k4.
     bind_e (cell_very_large np k4) (\<lambda>k5.
     cell_prep k5)))))"

section \<open>The correlation matrices\<close>

definition dot :: "real list \<Rightarrow> real list \<Rightarrow> real" where
  "dot u v = sum_list (map2 (*) u v)"

definition mat_vec :: "real list list \<Rightarrow> real list \<Rightarrow> real list" where
  "mat_vec A v = map (\<lambda>row. dot row v) A"

definition unit_diagonal :: "real list list \<Rightarrow> bool" where
  "unit_diagonal A \<longleftrightarrow> list_all (\<lambda>i. A ! i ! i = 1) [0..<length A]"

definition symmetric :: "real list list \<Rightarrow> bool" where
  "symmetric A \<longleftrightarrow>
     list_all (\<lambda>i. list_all (\<lambda>j. A ! i ! j = A ! j ! i) [0..<length A]) [0..<length A]"

definition positive_semidefinite :: "real list list \<Rightarrow> bool" where
  "positive_semidefinite A \<longleftrightarrow> (\<forall>v. length v = length A \<longrightarrow> 0 \<le> dot v (mat_vec A v))"

definition eigenpair :: "real list list \<Rightarrow> real \<Rightarrow> real list \<Rightarrow> bool" where
  "eigenpair A l v \<longleftrightarrow>
     length v = length A \<and> list_ex (\<lambda>x. x \<noteq> 0) v \<and> mat_vec A v = map (\<lambda>x. l * x) v"

text \<open>
  No negative number is an eigenvalue: a vector that the matrix maps to a negative
  multiple of itself is the zero vector.
\<close>

definition no_negative_eigenvalue :: "real list list \<Rightarrow> bool" where
  "no_negative_eigenvalue A \<longleftrightarrow>
     (\<forall>l v. l < 0 \<and> length v = length A \<and> mat_vec A v = map (\<lambda>x. l * x) v \<longrightarrow>
            list_all (\<lambda>x. x = 0) v)"


section \<open>Frames, draws and kernels used to state the properties\<close>

text \<open>
  The frames the cells build, written out: the four numeric columns of a draw \<open>X\<close>
  (one row per observation), the frame after the cohort label is set, the frame after
  the firm sizes \<open>F\<close> are set, and the frame \<^verbatim>\<open>pd.concat\<close> makes of the five.
\<close>

definition numeric_cols :: "real list list \<Rightarrow> (string \<times> cell list) list" where
  "numeric_cols X =
     [(''job_sat'', map (\<lambda>row. FloatV (row ! 0)) X), (''int_qui'', map (\<lambda>row. FloatV (row ! 1)) X),
      (''age'', map (\<lambda>row. FloatV (row ! 2)) X), (''org_tnr'', map (\<lambda>row. FloatV (row ! 3)) X)]"

definition sampled_frame :: "real list list \<Rightarrow> dataframe" where
  "sampled_frame X = \<lparr>index = [0..<length X], cols = numeric_cols X\<rparr>"

definition labelled_frame :: "real list list \<Rightarrow> string \<Rightarrow> dataframe" where
  "labelled_frame X lab =
     \<lparr>index = [0..<length X],
      cols = numeric_cols X @ [(''cohort'', replicate (length X) (StrV lab))]\<rparr>"

definition cohort_frame :: "real list list \<Rightarrow> string \<Rightarrow> int list \<Rightarrow> dataframe" where
  "cohort_frame X lab F =
     \<lparr>index = [0..<length X],
      cols = numeric_cols X @
             [(''cohort'', replicate (length X) (StrV lab)), (''firm_size'', map IntV F)]\<rparr>"

definition assembled_frame ::
  "real list list \<Rightarrow> int list \<Rightarrow> real list list \<Rightarrow> int list \<Rightarrow> real list list \<Rightarrow> int list \<Rightarrow>
   real list list \<Rightarrow> real list list \<Rightarrow> int list \<Rightarrow> dataframe" where
  "assembled_frame X1 F1 X2 F2 X3 F3 X4 X5 F5 =
     \<lparr>index = [0..<length X1] @ [0..<length X2] @ [0..<length X3] @ [0..<length X4] @
              [0..<length X5],
      cols = numeric_cols (X1 @ X2 @ X3 @ X4 @ X5) @
        [(''cohort'',
            replicate (length X1) (StrV ''micro'') @ replicate (length X2) (StrV ''large'') @
            replicate (length X3) (StrV ''medium'') @ replicate (length X4) (StrV ''large'') @
            replicate (length X5) (StrV ''very large'')),
         (''firm_size'',
            map (\<lambda>v. FloatV (of_int v)) F1 @ map (\<lambda>v. FloatV (of_int v)) F2 @
            map (\<lambda>v. FloatV (of_int v)) F3 @ replicate (length X4) NaN @
            map (\<lambda>v. FloatV (of_int v)) F5)]\<rparr>"

text \<open>
  \<open>drawn np g r low high X F g'\<close>: from the generator state \<open>g\<close>, the call
  \<^verbatim>\<open>multivariate_normal(mu, r, size=num_samples)\<close> returns \<open>X\<close> and the following
  call \<^verbatim>\<open>randint(low, high, size=num_samples)\<close> returns \<open>F\<close> and leaves the state
  \<open>g'\<close>; \<open>X\<close> has \<open>num_samples\<close> rows of four numbers and \<open>F\<close> has \<open>num_samples\<close>
  integers, each at least \<open>low\<close> and below \<open>high\<close>.
\<close>

definition drawn ::
  "'g numpy \<Rightarrow> 'g \<Rightarrow> real list list \<Rightarrow> int \<Rightarrow> int \<Rightarrow> real list list \<Rightarrow> int list \<Rightarrow> 'g \<Rightarrow> bool" where
  "drawn np g r low high X F g' \<longleftrightarrow>
     (\<exists>g1. multivariate_normal np g mu r num_samples = Inr (X, g1) \<and>
           randint np g1 low high num_samples = Inr (F, g')) \<and>
     length X = num_samples \<and> list_all (\<lambda>row. length row = 4) X \<and>
     length F = num_samples \<and> list_all (\<lambda>v. low \<le> v \<and> v < high) F"

text \<open>The rows \<open>i\<close> up to \<open>j\<close> (exclusive) of a frame, as \<^verbatim>\<open>d.iloc[i:j]\<close> reads them.\<close>

definition iloc :: "dataframe \<Rightarrow> nat \<Rightarrow> nat \<Rightarrow> dataframe" where
  "iloc d i j =
     \<lparr>index = take (j - i) (drop i (index d)),
      cols = map (\<lambda>(c, vs). (c, take (j - i) (drop i vs))) (cols d)\<rparr>"

text \<open>A frame is well formed when every column has one cell per row.\<close>

definition wf_frame :: "dataframe \<Rightarrow> bool" where
  "wf_frame d \<longleftrightarrow> list_all (\<lambda>(c, vs). length vs = nrows d) (cols d)"

text \<open>
  Two kernels to run the cells on: a fresh one, where no name is bound, and a session in
  which the very-large-firms cell has been executed once before the top-to-bottom run (the
  notebook's recorded execution counts show such a session: the large-firms cell ran
  without an error, so \<^verbatim>\<open>df_501_\<close> was bound).
\<close>

definition fresh_kernel :: "nat kernel" where
  "fresh_kernel =
     \<lparr>df_1_5 = None, df_6_25 = None, df_26_100 = None, df_101_500 = None, df_501 = None,
      df = None, rng = 0\<rparr>"

definition session_kernel :: "nat kernel" where
  "session_kernel =
     (case cell_very_large counter_numpy fresh_kernel of Inr k \<Rightarrow> k | Inl e \<Rightarrow> fresh_kernel)"

text \<open>A 4 by 4 matrix that is neither symmetric nor positive semidefinite.\<close>

definition skewed_matrix :: "real list list" where
  "skewed_matrix = [[1, 3, 0, 0], [0, 1, 0, 0], [0, 0, 1, 0], [0, 0, 0, 1]]"

text \<open>Two small frames with different columns, and a kernel that holds them.\<close>

definition frame_a :: dataframe where
  "frame_a =
     \<lparr>index = [0, 1],
      cols = [(''job_sat'', [FloatV 0.5, FloatV (- 1)]), (''firm_size'', [IntV 3, IntV 4])]\<rparr>"

definition frame_b :: dataframe where
  "frame_b = \<lparr>index = [0], cols = [(''job_sat'', [FloatV 2])]\<rparr>"

definition small_kernel :: "nat kernel" where
  "small_kernel =
     \<lparr>df_1_5 = Some frame_a, df_6_25 = Some frame_a, df_26_100 = Some frame_a,
      df_101_500 = Some frame_b, df_501 = Some frame_a, df = None, rng = 0\<rparr>"

text \<open>
  The five sampling cells, each with the frame variable it builds, its matrix and the
  bounds of its firm-size draw.
\<close>

definition sampling_cells ::
  "(('g numpy \<Rightarrow> 'g kernel \<Rightarrow> py_error + 'g kernel) \<times> ('g kernel \<Rightarrow> dataframe option) \<times>
    real list list \<times> int \<times> int) list" where
  "sampling_cells =
     [(cell_micro, df_1_5, r_micro, 1, 5), (cell_small, df_6_25, r_small, 6, 25),
      (cell_medium, df_26_100, r_medium, 26, 100), (cell_large, df_101_500, r_large, 101, 500),
      (cell_very_large, df_501, r_very_large, 501, 2000)]"

section \<open>The cells, step by step\<close>

lemma bind_e_Inr [simp]: "bind_e (Inr a) f = f a"
  by (simp add: bind_e_def)

lemma bind_e_Inl [simp]: "bind_e (Inl e) f = Inl e"
  by (simp add: bind_e_def)

lemma DataFrame_names:
  "list_all (\<lambda>row. length row = 4) X \<Longrightarrow> DataFrame X names = Inr (sampled_frame X)"
  by (simp add: DataFrame_def names_def sampled_frame_def numeric_cols_def eval_nat_numeral)

lemma loc_set_scalar_sampled:
  "loc_set_scalar (sampled_frame X) ''cohort'' (StrV lab) = labelled_frame X lab"
  by (simp add: loc_set_scalar_def sampled_frame_def labelled_frame_def numeric_cols_def nrows_def)

lemma loc_set_array_labelled:
  "length F = length X \<Longrightarrow>
   loc_set_array (labelled_frame X lab) ''firm_size'' (map IntV F) = Inr (cohort_frame X lab F)"
  by (cases "X = []")
    (simp_all add: loc_set_array_def labelled_frame_def cohort_frame_def numeric_cols_def
      nrows_def columns_def)

lemma loc_set_array_rows:
  assumes "length vs = nrows d" and "vs \<noteq> []"
  shows "loc_set_array d c vs = Inr (d\<lparr>cols := set_col c vs (cols d)\<rparr>)"
  using assms by (auto simp: loc_set_array_def)

lemma loc_set_array_returns:
  "(\<exists>d'. loc_set_array d c vs = Inr d') \<longleftrightarrow> nrows d = 0 \<or> length vs = nrows d"
  by (simp add: loc_set_array_def)

lemma loc_set_array_enlarges:
  "loc_set_array \<lparr>index = [], cols = [(''cohort'', [])]\<rparr> ''firm_size'' [IntV 7, IntV 8] =
     Inr \<lparr>index = [0, 1],
          cols = [(''cohort'', [NaN, NaN]), (''firm_size'', [IntV 7, IntV 8])]\<rparr>"
  by (simp add: loc_set_array_def nrows_def upt_rec)

lemma col_set_col:
  "map_of (set_col c vs cs) c' = (if c' = c then Some vs else map_of cs c')"
  by (induction cs) auto

lemma col_loc_set_array:
  assumes "loc_set_array d c vs = Inr d'"
  shows "col d' c = Some vs"
  using assms by (auto simp: loc_set_array_def col_def col_set_col split: if_splits)

lemma draws_exist:
  assumes "numpy_contract np" "shape_ok mu r" "low < high"
  shows "\<exists>X F g'. drawn np g r low high X F g'"
proof -
  from assms(1,2) obtain X g1 where
    X: "multivariate_normal np g mu r num_samples = Inr (X, g1)" "length X = num_samples"
       "list_all (\<lambda>row. length row = length mu) X"
    unfolding numpy_contract_def by blast
  from assms(1,3) obtain F g' where
    F: "randint np g1 low high num_samples = Inr (F, g')" "length F = num_samples"
       "list_all (\<lambda>v. low \<le> v \<and> v < high) F"
    unfolding numpy_contract_def by blast
  from X F show ?thesis
    unfolding drawn_def by (auto simp: mu_def)
qed

lemma sample_frame_drawn:
  "drawn np g r low high X F g' \<Longrightarrow>
   \<exists>g1. sample_frame np g r = Inr (sampled_frame X, g1) \<and>
        randint np g1 low high num_samples = Inr (F, g')"
  unfolding drawn_def sample_frame_def by (auto simp: DataFrame_names)

lemma cell_micro_drawn:
  assumes "drawn np (rng k) r_micro 1 5 X F g'"
  shows "cell_micro np k = Inr (k\<lparr>df_1_5 := Some (cohort_frame X ''micro'' F), rng := g'\<rparr>)"
proof -
  from sample_frame_drawn[OF assms] obtain g1 where
    "sample_frame np (rng k) r_micro = Inr (sampled_frame X, g1)"
    "randint np g1 1 5 num_samples = Inr (F, g')" by blast
  moreover from assms have "length F = length X" by (simp add: drawn_def)
  ultimately show ?thesis
    by (simp add: cell_micro_def loc_set_scalar_sampled loc_set_array_labelled)
qed

lemma cell_large_drawn:
  assumes "drawn np (rng k) r_large 101 500 X F g'"
  shows "cell_large np k =
    (case df_501 k of None \<Rightarrow> Inl (NameError ''df_501_'')
     | Some old \<Rightarrow>
        (case loc_set_array old ''firm_size'' (map IntV F) of Inl e \<Rightarrow> Inl e
         | Inr old' \<Rightarrow>
            Inr (k\<lparr>df_101_500 := Some (labelled_frame X ''large''), df_501 := Some old',
                   rng := g'\<rparr>)))"
proof -
  from sample_frame_drawn[OF assms] obtain g1 where
    "sample_frame np (rng k) r_large = Inr (sampled_frame X, g1)"
    "randint np g1 101 500 num_samples = Inr (F, g')" by blast
  then show ?thesis
    by (simp add: cell_large_def loc_set_scalar_sampled lookup_name_def bind_e_def
        split: option.splits sum.splits)
qed

lemma upcast_id: "\<forall>v\<in>set vs. \<not> is_int v \<Longrightarrow> upcast vs = vs"
proof -
  assume a: "\<forall>v\<in>set vs. \<not> is_int v"
  have "to_float v = v" if "\<not> is_int v" for v
    using that by (cases v) simp_all
  with a have "map to_float vs = vs"
    by (simp add: map_idI)
  then show ?thesis by (simp add: upcast_def)
qed

lemma upcast_firm_size:
  assumes "0 < n"
  shows "upcast (map IntV F1 @ map IntV F2 @ map IntV F3 @ replicate n NaN @ map IntV F5) =
         map (\<lambda>v. FloatV (of_int v)) F1 @ map (\<lambda>v. FloatV (of_int v)) F2 @
         map (\<lambda>v. FloatV (of_int v)) F3 @ replicate n NaN @ map (\<lambda>v. FloatV (of_int v)) F5"
proof -
  let ?vs = "map IntV F1 @ map IntV F2 @ map IntV F3 @ replicate n NaN @ map IntV F5"
  have "\<not> list_ex is_str ?vs"
    by (auto simp: list_ex_iff)
  moreover have "list_ex (\<lambda>v. \<not> is_int v) ?vs"
    using assms by (auto simp: list_ex_iff)
  ultimately have "upcast ?vs = map to_float ?vs"
    by (simp add: upcast_def)
  then show ?thesis by simp
qed

lemma upcast_floats:
  "upcast (map (\<lambda>row. FloatV (f row)) X1 @ map (\<lambda>row. FloatV (f row)) X2 @
           map (\<lambda>row. FloatV (f row)) X3 @ map (\<lambda>row. FloatV (f row)) X4 @
           map (\<lambda>row. FloatV (f row)) X5) =
   map (\<lambda>row. FloatV (f row)) (X1 @ X2 @ X3 @ X4 @ X5)"
proof -
  have "upcast (map (\<lambda>row. FloatV (f row)) (X1 @ X2 @ X3 @ X4 @ X5)) =
        map (\<lambda>row. FloatV (f row)) (X1 @ X2 @ X3 @ X4 @ X5)"
    by (rule upcast_id) auto
  then show ?thesis by simp
qed

lemma upcast_labels:
  "upcast (replicate n1 (StrV l1) @ replicate n2 (StrV l2) @ replicate n3 (StrV l3) @
           replicate n4 (StrV l4) @ replicate n5 (StrV l5)) =
   replicate n1 (StrV l1) @ replicate n2 (StrV l2) @ replicate n3 (StrV l3) @
   replicate n4 (StrV l4) @ replicate n5 (StrV l5)"
  by (rule upcast_id) auto

lemma pd_concat_cohorts:
  assumes "X4 \<noteq> []"
  shows "pd_concat [cohort_frame X1 ''micro'' F1, cohort_frame X2 ''large'' F2,
                    cohort_frame X3 ''medium'' F3, labelled_frame X4 ''large'',
                    cohort_frame X5 ''very large'' F5] =
         Inr (assembled_frame X1 F1 X2 F2 X3 F3 X4 X5 F5)"
proof -
  from assms have n: "0 < length X4" by simp
  show ?thesis
    by (simp add: pd_concat_def all_columns_def columns_def cohort_frame_def labelled_frame_def
        numeric_cols_def col_block_def col_def nrows_def assembled_frame_def upcast_floats upcast_labels
        upcast_firm_size[OF n])
qed

lemma cell_small_drawn:
  assumes "drawn np (rng k) r_small 6 25 X F g'"
  shows "cell_small np k = Inr (k\<lparr>df_6_25 := Some (cohort_frame X ''large'' F), rng := g'\<rparr>)"
proof -
  from sample_frame_drawn[OF assms] obtain g1 where
    "sample_frame np (rng k) r_small = Inr (sampled_frame X, g1)"
    "randint np g1 6 25 num_samples = Inr (F, g')" by blast
  moreover from assms have "length F = length X" by (simp add: drawn_def)
  ultimately show ?thesis
    by (simp add: cell_small_def loc_set_scalar_sampled loc_set_array_labelled)
qed

lemma cell_medium_drawn:
  assumes "drawn np (rng k) r_medium 26 100 X F g'"
  shows "cell_medium np k = Inr (k\<lparr>df_26_100 := Some (cohort_frame X ''medium'' F), rng := g'\<rparr>)"
proof -
  from sample_frame_drawn[OF assms] obtain g1 where
    "sample_frame np (rng k) r_medium = Inr (sampled_frame X, g1)"
    "randint np g1 26 100 num_samples = Inr (F, g')" by blast
  moreover from assms have "length F = length X" by (simp add: drawn_def)
  ultimately show ?thesis
    by (simp add: cell_medium_def loc_set_scalar_sampled loc_set_array_labelled)
qed

lemma cell_very_large_drawn:
  assumes "drawn np (rng k) r_very_large 501 2000 X F g'"
  shows "cell_very_large np k = Inr (k\<lparr>df_501 := Some (cohort_frame X ''very large'' F), rng := g'\<rparr>)"
proof -
  from sample_frame_drawn[OF assms] obtain g1 where
    "sample_frame np (rng k) r_very_large = Inr (sampled_frame X, g1)"
    "randint np g1 501 2000 num_samples = Inr (F, g')" by blast
  moreover from assms have "length F = length X" by (simp add: drawn_def)
  ultimately show ?thesis
    by (simp add: cell_very_large_def loc_set_scalar_sampled loc_set_array_labelled)
qed

lemma run_all_drawn:
  assumes d1: "drawn np (rng k) r_micro 1 5 X1 F1 g1"
    and d2: "drawn np g1 r_small 6 25 X2 F2 g2"
    and d3: "drawn np g2 r_medium 26 100 X3 F3 g3"
    and d4: "drawn np g3 r_large 101 500 X4 F4 g4"
    and d5: "drawn np g4 r_very_large 501 2000 X5 F5 g5"
  shows "run_all np k =
    (case df_501 k of None \<Rightarrow> Inl (NameError ''df_501_'')
     | Some old \<Rightarrow>
        (case loc_set_array old ''firm_size'' (map IntV F4) of Inl e \<Rightarrow> Inl e
         | Inr old' \<Rightarrow>
            Inr (k\<lparr>df_1_5 := Some (cohort_frame X1 ''micro'' F1),
                   df_6_25 := Some (cohort_frame X2 ''large'' F2),
                   df_26_100 := Some (cohort_frame X3 ''medium'' F3),
                   df_101_500 := Some (labelled_frame X4 ''large''),
                   df_501 := Some (cohort_frame X5 ''very large'' F5),
                   df := Some (assembled_frame X1 F1 X2 F2 X3 F3 X4 X5 F5),
                   rng := g5\<rparr>)))"
proof -
  let ?k1 = "k\<lparr>df_1_5 := Some (cohort_frame X1 ''micro'' F1), rng := g1\<rparr>"
  let ?k2 = "k\<lparr>df_1_5 := Some (cohort_frame X1 ''micro'' F1),
               df_6_25 := Some (cohort_frame X2 ''large'' F2), rng := g2\<rparr>"
  let ?k3 = "k\<lparr>df_1_5 := Some (cohort_frame X1 ''micro'' F1),
               df_6_25 := Some (cohort_frame X2 ''large'' F2),
               df_26_100 := Some (cohort_frame X3 ''medium'' F3), rng := g3\<rparr>"
  have c1: "cell_micro np k = Inr ?k1"
    by (rule cell_micro_drawn[OF d1])
  have c2: "cell_small np ?k1 = Inr ?k2"
    using cell_small_drawn[of np ?k1 X2 F2 g2] d2 by simp
  have c3: "cell_medium np ?k2 = Inr ?k3"
    using cell_medium_drawn[of np ?k2 X3 F3 g3] d3 by simp
  have c4: "cell_large np ?k3 =
    (case df_501 k of None \<Rightarrow> Inl (NameError ''df_501_'')
     | Some old \<Rightarrow>
        (case loc_set_array old ''firm_size'' (map IntV F4) of Inl e \<Rightarrow> Inl e
         | Inr old' \<Rightarrow>
            Inr (k\<lparr>df_1_5 := Some (cohort_frame X1 ''micro'' F1),
               df_6_25 := Some (cohort_frame X2 ''large'' F2),
               df_26_100 := Some (cohort_frame X3 ''medium'' F3),
               df_101_500 := Some (labelled_frame X4 ''large''),
               df_501 := Some old',
               rng := g4\<rparr>)))"
    using cell_large_drawn[of np ?k3 X4 F4 g4] d4 by (simp split: option.splits sum.splits)
  from d4 have "X4 \<noteq> []"
    by (auto simp: drawn_def num_samples_def)
  note cc = pd_concat_cohorts[OF this]
  show ?thesis
  proof (cases "df_501 k")
    case None
    then show ?thesis
      by (simp add: run_all_def c1 c2 c3 c4)
  next
    case (Some old)
    show ?thesis
    proof (cases "loc_set_array old ''firm_size'' (map IntV F4)")
      case (Inl e)
      with Some show ?thesis
        by (simp add: run_all_def c1 c2 c3 c4)
    next
      case (Inr old')
      let ?k4 = "k\<lparr>df_1_5 := Some (cohort_frame X1 ''micro'' F1),
               df_6_25 := Some (cohort_frame X2 ''large'' F2),
               df_26_100 := Some (cohort_frame X3 ''medium'' F3),
               df_101_500 := Some (labelled_frame X4 ''large''),
               df_501 := Some old',
               rng := g4\<rparr>"
      let ?k5 = "k\<lparr>df_1_5 := Some (cohort_frame X1 ''micro'' F1),
               df_6_25 := Some (cohort_frame X2 ''large'' F2),
               df_26_100 := Some (cohort_frame X3 ''medium'' F3),
               df_101_500 := Some (labelled_frame X4 ''large''),
               df_501 := Some (cohort_frame X5 ''very large'' F5),
               rng := g5\<rparr>"
      have c5: "cell_very_large np ?k4 = Inr ?k5"
        using cell_very_large_drawn[of np ?k4 X5 F5 g5] d5 by simp
      have c6: "cell_prep ?k5 =
        Inr (k\<lparr>df_1_5 := Some (cohort_frame X1 ''micro'' F1),
               df_6_25 := Some (cohort_frame X2 ''large'' F2),
               df_26_100 := Some (cohort_frame X3 ''medium'' F3),
               df_101_500 := Some (labelled_frame X4 ''large''),
               df_501 := Some (cohort_frame X5 ''very large'' F5),
               df := Some (assembled_frame X1 F1 X2 F2 X3 F3 X4 X5 F5),
               rng := g5\<rparr>)"
        by (simp add: cell_prep_def lookup_name_def cc)
      from Some Inr show ?thesis
        by (simp add: run_all_def c1 c2 c3 c4 c5 c6)
    qed
  qed
qed

lemma shape_ok_matrices:
  "shape_ok mu r_micro" "shape_ok mu r_small" "shape_ok mu r_medium" "shape_ok mu r_large"
  "shape_ok mu r_very_large"
  by (simp_all add: shape_ok_def mu_def r_micro_def r_small_def r_medium_def r_large_def
      r_very_large_def)

lemma draw_chain_exists:
  assumes "numpy_contract np"
  obtains X1 F1 g1 X2 F2 g2 X3 F3 g3 X4 F4 g4 X5 F5 g5 where
    "drawn np g r_micro 1 5 X1 F1 g1" "drawn np g1 r_small 6 25 X2 F2 g2"
    "drawn np g2 r_medium 26 100 X3 F3 g3" "drawn np g3 r_large 101 500 X4 F4 g4"
    "drawn np g4 r_very_large 501 2000 X5 F5 g5"
proof -
  obtain X1 F1 g1 where 1: "drawn np g r_micro 1 5 X1 F1 g1"
    using draws_exist[OF assms shape_ok_matrices(1), of 1 5 g] by auto
  obtain X2 F2 g2 where 2: "drawn np g1 r_small 6 25 X2 F2 g2"
    using draws_exist[OF assms shape_ok_matrices(2), of 6 25 g1] by auto
  obtain X3 F3 g3 where 3: "drawn np g2 r_medium 26 100 X3 F3 g3"
    using draws_exist[OF assms shape_ok_matrices(3), of 26 100 g2] by auto
  obtain X4 F4 g4 where 4: "drawn np g3 r_large 101 500 X4 F4 g4"
    using draws_exist[OF assms shape_ok_matrices(4), of 101 500 g3] by auto
  obtain X5 F5 g5 where 5: "drawn np g4 r_very_large 501 2000 X5 F5 g5"
    using draws_exist[OF assms shape_ok_matrices(5), of 501 2000 g4] by auto
  from 1 2 3 4 5 that show ?thesis by blast
qed

section \<open>The correlation matrices are valid\<close>

text \<open>
  The quadratic form of a matrix with unit diagonal and the off-diagonal entries of the
  five cells (\<open>- a\<close> being the job-satisfaction/intent-to-quit correlation) is a sum
  of squares with non-negative weights as long as \<open>a\<close> is at most 0.86.
\<close>

lemma quad_form_nonneg:
  fixes a x y z w :: real
  assumes "0 \<le> a" "a \<le> 0.86"
  shows "0 \<le> dot [x, y, z, w]
           (mat_vec [[1, - a, -0.03, 0.11], [- a, 1, -0.05, -0.09],
                     [-0.03, -0.05, 1, 0.05], [0.11, -0.09, 0.05, 1]] [x, y, z, w])"
proof -
  have "dot [x, y, z, w]
           (mat_vec [[1, - a, -0.03, 0.11], [- a, 1, -0.05, -0.09],
                     [-0.03, -0.05, 1, 0.05], [0.11, -0.09, 0.05, 1]] [x, y, z, w]) =
     a * (x - y)\<^sup>2 + 0.03 * (x - z)\<^sup>2 + 0.11 * (x + w)\<^sup>2 + 0.05 * (y - z)\<^sup>2
     + 0.09 * (y - w)\<^sup>2 + 0.05 * (z + w)\<^sup>2
     + (0.86 - a) * x\<^sup>2 + (0.86 - a) * y\<^sup>2 + 0.87 * z\<^sup>2 + 0.75 * w\<^sup>2"
    by (simp add: dot_def mat_vec_def power2_eq_square field_simps)
  also have "\<dots> \<ge> 0"
    using assms by (intro add_nonneg_nonneg mult_nonneg_nonneg) simp_all
  finally show ?thesis .
qed

lemma length_four: "length v = 4 \<Longrightarrow> \<exists>x y z w. v = [x, y, z, w]"
  by (auto simp: length_Suc_conv numeral_eq_Suc)

lemma psd_r_micro: "positive_semidefinite r_micro"
  unfolding positive_semidefinite_def
proof (intro allI impI)
  fix v :: "real list" assume "length v = length r_micro"
  then obtain x y z w where v: "v = [x, y, z, w]"
    using length_four[of v] by (auto simp: r_micro_def)
  show "0 \<le> dot v (mat_vec r_micro v)"
    using quad_form_nonneg[of "0.40" x y z w] by (simp add: v r_micro_def)
qed

lemma psd_r_small: "positive_semidefinite r_small"
  unfolding positive_semidefinite_def
proof (intro allI impI)
  fix v :: "real list" assume "length v = length r_small"
  then obtain x y z w where v: "v = [x, y, z, w]"
    using length_four[of v] by (auto simp: r_small_def)
  show "0 \<le> dot v (mat_vec r_small v)"
    using quad_form_nonneg[of "0.30" x y z w] by (simp add: v r_small_def)
qed

lemma psd_r_medium: "positive_semidefinite r_medium"
  unfolding positive_semidefinite_def
proof (intro allI impI)
  fix v :: "real list" assume "length v = length r_medium"
  then obtain x y z w where v: "v = [x, y, z, w]"
    using length_four[of v] by (auto simp: r_medium_def)
  show "0 \<le> dot v (mat_vec r_medium v)"
    using quad_form_nonneg[of "0.25" x y z w] by (simp add: v r_medium_def)
qed

lemma psd_r_large: "positive_semidefinite r_large"
  unfolding positive_semidefinite_def
proof (intro allI impI)
  fix v :: "real list" assume "length v = length r_large"
  then obtain x y z w where v: "v = [x, y, z, w]"
    using length_four[of v] by (auto simp: r_large_def)
  show "0 \<le> dot v (mat_vec r_large v)"
    using quad_form_nonneg[of "0.20" x y z w] by (simp add: v r_large_def)
qed

lemma psd_r_very_large: "positive_semidefinite r_very_large"
  unfolding positive_semidefinite_def
proof (intro allI impI)
  fix v :: "real list" assume "length v = length r_very_large"
  then obtain x y z w where v: "v = [x, y, z, w]"
    using length_four[of v] by (auto simp: r_very_large_def)
  show "0 \<le> dot v (mat_vec r_very_large v)"
    using quad_form_nonneg[of "0.15" x y z w] by (simp add: v r_very_large_def)
qed

text \<open>
  For a matrix whose quadratic form is non-negative, every real eigenvalue is non-negative:
  for an eigenvector \<open>v\<close> with eigenvalue \<open>l\<close>, the form at \<open>v\<close> is \<open>l\<close> times the
  squared length of \<open>v\<close>.
\<close>

lemma dot_scale: "dot v (map (\<lambda>x. l * x) v) = l * dot v v"
  unfolding dot_def by (induction v) (simp_all add: algebra_simps)

lemma dot_self_nonneg: "0 \<le> dot v v"
  unfolding dot_def by (induction v) simp_all

lemma dot_self_pos: "list_ex (\<lambda>x. x \<noteq> 0) v \<Longrightarrow> 0 < dot v v"
  unfolding dot_def
proof (induction v)
  case Nil
  then show ?case by simp
next
  case (Cons a v)
  have "0 \<le> sum_list (map2 (*) v v)"
    using dot_self_nonneg[of v] by (simp add: dot_def)
  moreover have "0 < a * a" if "a \<noteq> 0"
    using that by (cases "0 < a") (auto simp: zero_less_mult_iff)
  ultimately show ?case
    using Cons by (cases "a = 0") (auto intro: add_pos_nonneg)
qed

lemma psd_eigenvalue_nonneg:
  assumes "positive_semidefinite A" "eigenpair A l v"
  shows "0 \<le> l"
proof -
  from assms(2) have len: "length v = length A"
    by (simp add: eigenpair_def)
  from assms(1) len have "0 \<le> dot v (mat_vec A v)"
    unfolding positive_semidefinite_def by blast
  also from assms(2) have "dot v (mat_vec A v) = l * dot v v"
    by (simp add: eigenpair_def dot_scale)
  finally have "0 \<le> l * dot v v" .
  moreover from assms(2) have "0 < dot v v"
    by (simp add: eigenpair_def dot_self_pos)
  ultimately show ?thesis
    by (simp add: zero_le_mult_iff)
qed

lemma psd_no_negative_eigenvalue:
  assumes "positive_semidefinite A"
  shows "no_negative_eigenvalue A"
  unfolding no_negative_eigenvalue_def
proof (intro allI impI)
  fix l v
  assume a: "l < 0 \<and> length v = length A \<and> mat_vec A v = map (\<lambda>x. l * x) v"
  show "list_all (\<lambda>x. x = 0) v"
  proof (rule ccontr)
    assume "\<not> list_all (\<lambda>x. x = 0) v"
    then have "list_ex (\<lambda>x. x \<noteq> 0) v"
      by (auto simp: list_all_iff list_ex_iff)
    with a have "eigenpair A l v"
      by (simp add: eigenpair_def)
    from psd_eigenvalue_nonneg[OF assms this] a show False
      by simp
  qed
qed

text \<open>
  Claim C7. Each of the five hard-coded matrices is a 4 by 4 matrix for the mean \<open>mu\<close>,
  has every diagonal entry equal to 1, is symmetric, is positive semidefinite (its
  quadratic form is non-negative at every vector), and has no negative eigenvalue.
\<close>

theorem correlation_matrices_invariant:
  "list_all (\<lambda>A. shape_ok mu A \<and> unit_diagonal A \<and> symmetric A \<and> positive_semidefinite A \<and>
                 no_negative_eigenvalue A)
     [r_micro, r_small, r_medium, r_large, r_very_large]"
proof -
  have "list_all (\<lambda>A. shape_ok mu A \<and> unit_diagonal A \<and> symmetric A)
     [r_micro, r_small, r_medium, r_large, r_very_large]"
    by (simp add: shape_ok_def mu_def unit_diagonal_def symmetric_def r_micro_def r_small_def
        r_medium_def r_large_def r_very_large_def upt_rec nth_Cons')
  then show ?thesis
    using psd_r_micro psd_r_small psd_r_medium psd_r_large psd_r_very_large
    by (simp add: psd_no_negative_eigenvalue)
qed

theorem correlation_matrices_invariant_witness:
  "length [1, 1, 0, 0 :: real] = length r_micro \<and>
   0 \<le> dot [1, 1, 0, 0] (mat_vec r_micro [1, 1, 0, 0]) \<and>
   (- 1 :: real) < 0 \<and> length [0, 0, 0, 0 :: real] = length r_micro \<and>
   mat_vec r_micro [0, 0, 0, 0] = map (\<lambda>x. - 1 * x) [0, 0, 0, 0] \<and>
   list_all (\<lambda>x. x = 0) [0, 0, 0, 0 :: real]"
proof -
  have len: "length [1, 1, 0, 0 :: real] = length r_micro"
    by (simp add: r_micro_def)
  from correlation_matrices_invariant have
    p: "positive_semidefinite r_micro" and n: "no_negative_eigenvalue r_micro"
    by simp_all
  from p len have q: "0 \<le> dot [1, 1, 0, 0] (mat_vec r_micro [1, 1, 0, 0])"
    unfolding positive_semidefinite_def by blast
  have h: "(- 1 :: real) < 0 \<and> length [0, 0, 0, 0 :: real] = length r_micro \<and>
    mat_vec r_micro [0, 0, 0, 0] = map (\<lambda>x. - 1 * x) [0, 0, 0, 0]"
    by (simp add: r_micro_def mat_vec_def dot_def)
  with n have "list_all (\<lambda>x. x = 0) [0, 0, 0, 0 :: real]"
    unfolding no_negative_eigenvalue_def by blast
  with len q h show ?thesis by blast
qed

section \<open>Running the notebook\<close>

lemma mod_in_range:
  fixes low high x :: int
  assumes "low < high"
  shows "low \<le> low + x mod (high - low) \<and> low + x mod (high - low) < high"
proof -
  from assms have "0 \<le> x mod (high - low)" "x mod (high - low) < high - low"
    by simp_all
  then show ?thesis by linarith
qed

lemma counter_numpy_contract: "numpy_contract counter_numpy"
proof -
  have "list_all (\<lambda>v. low \<le> v \<and> v < high) (map (\<lambda>i. low + int (g + i) mod (high - low)) [0..<n])"
    if "low < high" for low high :: int and g n :: nat
    using mod_in_range[OF that] by (simp add: list_all_iff del: of_nat_add)
  then show ?thesis
    unfolding numpy_contract_def counter_numpy_def
    by (simp add: list_all_iff)
qed

lemma run_all_result:
  assumes "numpy_contract np" "run_all np k = Inr k'"
  obtains X1 F1 g1 X2 F2 g2 X3 F3 g3 X4 F4 g4 X5 F5 g5 where
    "drawn np (rng k) r_micro 1 5 X1 F1 g1" "drawn np g1 r_small 6 25 X2 F2 g2"
    "drawn np g2 r_medium 26 100 X3 F3 g3" "drawn np g3 r_large 101 500 X4 F4 g4"
    "drawn np g4 r_very_large 501 2000 X5 F5 g5"
    "k' = k\<lparr>df_1_5 := Some (cohort_frame X1 ''micro'' F1),
             df_6_25 := Some (cohort_frame X2 ''large'' F2),
             df_26_100 := Some (cohort_frame X3 ''medium'' F3),
             df_101_500 := Some (labelled_frame X4 ''large''),
             df_501 := Some (cohort_frame X5 ''very large'' F5),
             df := Some (assembled_frame X1 F1 X2 F2 X3 F3 X4 X5 F5),
             rng := g5\<rparr>"
proof -
  from draw_chain_exists[OF assms(1), of "rng k"]
  obtain X1 F1 g1 X2 F2 g2 X3 F3 g3 X4 F4 g4 X5 F5 g5 where d:
    "drawn np (rng k) r_micro 1 5 X1 F1 g1" "drawn np g1 r_small 6 25 X2 F2 g2"
    "drawn np g2 r_medium 26 100 X3 F3 g3" "drawn np g3 r_large 101 500 X4 F4 g4"
    "drawn np g4 r_very_large 501 2000 X5 F5 g5"
    by blast
  from run_all_drawn[OF d] assms(2)
  have "k' = k\<lparr>df_1_5 := Some (cohort_frame X1 ''micro'' F1),
             df_6_25 := Some (cohort_frame X2 ''large'' F2),
             df_26_100 := Some (cohort_frame X3 ''medium'' F3),
             df_101_500 := Some (labelled_frame X4 ''large''),
             df_501 := Some (cohort_frame X5 ''very large'' F5),
             df := Some (assembled_frame X1 F1 X2 F2 X3 F3 X4 X5 F5),
             rng := g5\<rparr>"
    by (simp split: option.splits sum.splits)
  with d that show ?thesis by blast
qed

lemma run_all_completes:
  assumes "numpy_contract np" "df_501 k = Some old" "nrows old = num_samples"
  shows "\<exists>k'. run_all np k = Inr k'"
proof -
  from draw_chain_exists[OF assms(1), of "rng k"]
  obtain X1 F1 g1 X2 F2 g2 X3 F3 g3 X4 F4 g4 X5 F5 g5 where d:
    "drawn np (rng k) r_micro 1 5 X1 F1 g1" "drawn np g1 r_small 6 25 X2 F2 g2"
    "drawn np g2 r_medium 26 100 X3 F3 g3" "drawn np g3 r_large 101 500 X4 F4 g4"
    "drawn np g4 r_very_large 501 2000 X5 F5 g5"
    by blast
  from d(4) have "F4 \<noteq> []" "length (map IntV F4) = nrows old"
    using assms(3) by (auto simp: drawn_def num_samples_def)
  from loc_set_array_rows[OF this(2), of "''firm_size''"] this(1)
  have "loc_set_array old ''firm_size'' (map IntV F4) =
        Inr (old\<lparr>cols := set_col ''firm_size'' (map IntV F4) (cols old)\<rparr>)"
    by simp
  with run_all_drawn[OF d] assms(2) show ?thesis
    by simp
qed

lemma run_all_NameError:
  assumes "numpy_contract np" "df_501 k = None"
  shows "run_all np k = Inl (NameError ''df_501_'')"
proof -
  from draw_chain_exists[OF assms(1), of "rng k"]
  obtain X1 F1 g1 X2 F2 g2 X3 F3 g3 X4 F4 g4 X5 F5 g5 where d:
    "drawn np (rng k) r_micro 1 5 X1 F1 g1" "drawn np g1 r_small 6 25 X2 F2 g2"
    "drawn np g2 r_medium 26 100 X3 F3 g3" "drawn np g3 r_large 101 500 X4 F4 g4"
    "drawn np g4 r_very_large 501 2000 X5 F5 g5"
    by blast
  from run_all_drawn[OF d] assms(2) show ?thesis
    by simp
qed

lemma session_kernel_df_501:
  "\<exists>old. df_501 session_kernel = Some old \<and> nrows old = num_samples \<and>
         col old ''cohort'' = Some (replicate num_samples (StrV ''very large''))"
proof -
  obtain X F g' where d: "drawn counter_numpy (rng fresh_kernel) r_very_large 501 2000 X F g'"
    using draws_exist[OF counter_numpy_contract shape_ok_matrices(5), of 501 2000 "rng fresh_kernel"]
    by auto
  have "df_501 session_kernel = Some (cohort_frame X ''very large'' F)"
    unfolding session_kernel_def cell_very_large_drawn[OF d] by simp
  moreover from d have "length X = num_samples"
    by (simp add: drawn_def)
  then have "nrows (cohort_frame X ''very large'' F) = num_samples"
    "col (cohort_frame X ''very large'' F) ''cohort'' =
       Some (replicate num_samples (StrV ''very large''))"
    by (simp_all add: cohort_frame_def nrows_def col_def numeric_cols_def)
  ultimately show ?thesis
    by blast
qed

lemma assembled_blocks:
  assumes "length X1 = 1000" "length X2 = 1000" "length X3 = 1000" "length X4 = 1000"
    "length X5 = 1000" "length F1 = 1000" "length F2 = 1000" "length F3 = 1000"
    "length F5 = 1000"
  shows "iloc (assembled_frame X1 F1 X2 F2 X3 F3 X4 X5 F5) 1000 2000 =
           \<lparr>index = [0..<1000],
            cols = numeric_cols X2 @
              [(''cohort'', replicate 1000 (StrV ''large'')),
               (''firm_size'', map (\<lambda>v. FloatV (of_int v)) F2)]\<rparr>"
    and "iloc (assembled_frame X1 F1 X2 F2 X3 F3 X4 X5 F5) 3000 4000 =
           \<lparr>index = [0..<1000],
            cols = numeric_cols X4 @
              [(''cohort'', replicate 1000 (StrV ''large'')),
               (''firm_size'', replicate 1000 NaN)]\<rparr>"
    and "iloc (assembled_frame X1 F1 X2 F2 X3 F3 X4 X5 F5) 4000 5000 =
           \<lparr>index = [0..<1000],
            cols = numeric_cols X5 @
              [(''cohort'', replicate 1000 (StrV ''very large'')),
               (''firm_size'', map (\<lambda>v. FloatV (of_int v)) F5)]\<rparr>"
  using assms by (simp_all add: iloc_def assembled_frame_def numeric_cols_def)


lemma drawn_lengths:
  assumes "drawn np g r low high X F g'"
  shows "length X = 1000" "length F = 1000" "list_all (\<lambda>v. low \<le> v \<and> v < high) F"
  using assms by (simp_all add: drawn_def num_samples_def)

lemma run_all_steps:
  assumes d1: "drawn np (rng k) r_micro 1 5 X1 F1 g1"
    and d2: "drawn np g1 r_small 6 25 X2 F2 g2"
    and d3: "drawn np g2 r_medium 26 100 X3 F3 g3"
    and d4: "drawn np g3 r_large 101 500 X4 F4 g4"
    and d5: "drawn np g4 r_very_large 501 2000 X5 F5 g5"
    and old: "df_501 k = Some old" "loc_set_array old ''firm_size'' (map IntV F4) = Inr old'"
  shows "\<exists>k3 k4.
    bind_e (cell_micro np k) (\<lambda>k1. bind_e (cell_small np k1) (\<lambda>k2. cell_medium np k2)) = Inr k3 \<and>
    cell_large np k3 = Inr k4 \<and>
    df_501 k4 = Some old' \<and>
    bind_e (cell_very_large np k4) (\<lambda>k5. cell_prep k5) =
      Inr (k\<lparr>df_1_5 := Some (cohort_frame X1 ''micro'' F1),
             df_6_25 := Some (cohort_frame X2 ''large'' F2),
             df_26_100 := Some (cohort_frame X3 ''medium'' F3),
             df_101_500 := Some (labelled_frame X4 ''large''),
             df_501 := Some (cohort_frame X5 ''very large'' F5),
             df := Some (assembled_frame X1 F1 X2 F2 X3 F3 X4 X5 F5),
             rng := g5\<rparr>)"
proof -
  let ?k1 = "k\<lparr>df_1_5 := Some (cohort_frame X1 ''micro'' F1), rng := g1\<rparr>"
  let ?k2 = "k\<lparr>df_1_5 := Some (cohort_frame X1 ''micro'' F1),
               df_6_25 := Some (cohort_frame X2 ''large'' F2), rng := g2\<rparr>"
  let ?k3 = "k\<lparr>df_1_5 := Some (cohort_frame X1 ''micro'' F1),
               df_6_25 := Some (cohort_frame X2 ''large'' F2),
               df_26_100 := Some (cohort_frame X3 ''medium'' F3), rng := g3\<rparr>"
  let ?k4 = "k\<lparr>df_1_5 := Some (cohort_frame X1 ''micro'' F1),
               df_6_25 := Some (cohort_frame X2 ''large'' F2),
               df_26_100 := Some (cohort_frame X3 ''medium'' F3),
               df_101_500 := Some (labelled_frame X4 ''large''),
               df_501 := Some old',
               rng := g4\<rparr>"
  let ?k5 = "k\<lparr>df_1_5 := Some (cohort_frame X1 ''micro'' F1),
               df_6_25 := Some (cohort_frame X2 ''large'' F2),
               df_26_100 := Some (cohort_frame X3 ''medium'' F3),
               df_101_500 := Some (labelled_frame X4 ''large''),
               df_501 := Some (cohort_frame X5 ''very large'' F5),
               rng := g5\<rparr>"
  have c1: "cell_micro np k = Inr ?k1"
    by (rule cell_micro_drawn[OF d1])
  have c2: "cell_small np ?k1 = Inr ?k2"
    using cell_small_drawn[of np ?k1 X2 F2 g2] d2 by simp
  have c3: "cell_medium np ?k2 = Inr ?k3"
    using cell_medium_drawn[of np ?k2 X3 F3 g3] d3 by simp
  have c4: "cell_large np ?k3 = Inr ?k4"
    using cell_large_drawn[of np ?k3 X4 F4 g4] d4 old by simp
  have c5: "cell_very_large np ?k4 = Inr ?k5"
    using cell_very_large_drawn[of np ?k4 X5 F5 g5] d5 by simp
  from d4 have "X4 \<noteq> []"
    by (auto simp: drawn_def num_samples_def)
  note cc = pd_concat_cohorts[OF this]
  have c6: "cell_prep ?k5 =
        Inr (k\<lparr>df_1_5 := Some (cohort_frame X1 ''micro'' F1),
               df_6_25 := Some (cohort_frame X2 ''large'' F2),
               df_26_100 := Some (cohort_frame X3 ''medium'' F3),
               df_101_500 := Some (labelled_frame X4 ''large''),
               df_501 := Some (cohort_frame X5 ''very large'' F5),
               df := Some (assembled_frame X1 F1 X2 F2 X3 F3 X4 X5 F5),
               rng := g5\<rparr>)"
    by (simp add: cell_prep_def lookup_name_def cc)
  have a: "bind_e (cell_micro np k) (\<lambda>k1. bind_e (cell_small np k1) (\<lambda>k2. cell_medium np k2)) =
           Inr ?k3"
    by (simp add: c1 c2 c3)
  have b: "df_501 ?k4 = Some old'"
    by simp
  have c: "bind_e (cell_very_large np ?k4) (\<lambda>k5. cell_prep k5) =
        Inr (k\<lparr>df_1_5 := Some (cohort_frame X1 ''micro'' F1),
               df_6_25 := Some (cohort_frame X2 ''large'' F2),
               df_26_100 := Some (cohort_frame X3 ''medium'' F3),
               df_101_500 := Some (labelled_frame X4 ''large''),
               df_501 := Some (cohort_frame X5 ''very large'' F5),
               df := Some (assembled_frame X1 F1 X2 F2 X3 F3 X4 X5 F5),
               rng := g5\<rparr>)"
    by (simp add: c5 c6)
  from a c4 b c show ?thesis by blast
qed


lemma run_all_needs_df_501:
  assumes d1: "drawn np (rng k) r_micro 1 5 X1 F1 g1"
    and d2: "drawn np g1 r_small 6 25 X2 F2 g2"
    and d3: "drawn np g2 r_medium 26 100 X3 F3 g3"
    and d4: "drawn np g3 r_large 101 500 X4 F4 g4"
    and d5: "drawn np g4 r_very_large 501 2000 X5 F5 g5"
    and "run_all np k = Inr k'"
  shows "\<exists>old old'. df_501 k = Some old \<and>
           loc_set_array old ''firm_size'' (map IntV F4) = Inr old'"
  using run_all_drawn[OF d1 d2 d3 d4 d5] assms(6)
  by (simp split: option.splits sum.splits)

lemma run_all_completes_iff:
  assumes "numpy_contract np"
  shows "(\<exists>k'. run_all np k = Inr k') \<longleftrightarrow>
         (\<exists>old. df_501 k = Some old \<and> (nrows old = 0 \<or> nrows old = num_samples))"
proof -
  from draw_chain_exists[OF assms(1), of "rng k"]
  obtain X1 F1 g1 X2 F2 g2 X3 F3 g3 X4 F4 g4 X5 F5 g5 where d:
    "drawn np (rng k) r_micro 1 5 X1 F1 g1" "drawn np g1 r_small 6 25 X2 F2 g2"
    "drawn np g2 r_medium 26 100 X3 F3 g3" "drawn np g3 r_large 101 500 X4 F4 g4"
    "drawn np g4 r_very_large 501 2000 X5 F5 g5"
    by blast
  from d(4) have len: "length (map IntV F4) = num_samples"
    by (simp add: drawn_def)
  show ?thesis
  proof (cases "df_501 k")
    case None
    with run_all_drawn[OF d] show ?thesis
      by simp
  next
    case (Some old)
    show ?thesis
    proof (cases "loc_set_array old ''firm_size'' (map IntV F4)")
      case (Inl e)
      with loc_set_array_returns[of old "''firm_size''" "map IntV F4"] len
      have "\<not> (nrows old = 0 \<or> nrows old = num_samples)"
        by auto
      with run_all_drawn[OF d] Some Inl show ?thesis
        by simp
    next
      case (Inr old')
      with loc_set_array_returns[of old "''firm_size''" "map IntV F4"] len
      have "nrows old = 0 \<or> nrows old = num_samples"
        by auto
      with run_all_drawn[OF d] Some Inr show ?thesis
        by simp
    qed
  qed
qed

text \<open>
  Claim C10. In every run of the data cells that completes, the large-firms cell stores
  its draw from 101 (inclusive) to 500 (exclusive) as the firm sizes of the frame bound to
  \<^verbatim>\<open>df_501_\<close>, not of \<^verbatim>\<open>df_101_500\<close>; the very-large-firms cell then rebinds
  \<^verbatim>\<open>df_501_\<close> and gives it sizes drawn from 501 (inclusive) to 2000 (exclusive). The
  frame \<^verbatim>\<open>df_101_500\<close> keeps its four numeric columns and the cohort label and has no
  firm-size column, so in the assembled frame of 5000 rows its 1000 rows (3000 to 3999)
  are null in \<^verbatim>\<open>firm_size\<close>, the rows of the very-large cohort (4000 to 4999) hold
  the sizes of the later draw, and exactly 4000 of the 5000 cells of \<^verbatim>\<open>firm_size\<close> are
  not null.
\<close>

theorem firm_size_missing_for_large_cohort:
  assumes "numpy_contract np" and "run_all np k = Inr k'"
  shows "\<exists>d d4 d5 X4 F4 g4 g4' X5 F5 g5 g5' fs k3 k4 e5.
     drawn np g4 r_large 101 500 X4 F4 g4' \<and>
     drawn np g5 r_very_large 501 2000 X5 F5 g5' \<and>
     bind_e (cell_micro np k) (\<lambda>k1. bind_e (cell_small np k1) (\<lambda>k2. cell_medium np k2)) = Inr k3 \<and>
     cell_large np k3 = Inr k4 \<and>
     df_501 k4 = Some e5 \<and> col e5 ''firm_size'' = Some (map IntV F4) \<and>
     bind_e (cell_very_large np k4) (\<lambda>k5. cell_prep k5) = Inr k' \<and>
     df_101_500 k' = Some d4 \<and> nrows d4 = 1000 \<and>
     cols d4 = numeric_cols X4 @ [(''cohort'', replicate 1000 (StrV ''large''))] \<and>
     col d4 ''firm_size'' = None \<and>
     df_501 k' = Some d5 \<and> col d5 ''firm_size'' = Some (map IntV F5) \<and>
     list_all (\<lambda>v. 501 \<le> v \<and> v < 2000) F5 \<and>
     df k' = Some d \<and> nrows d = 5000 \<and>
     iloc d 3000 4000 =
       \<lparr>index = [0..<1000],
        cols = numeric_cols X4 @
          [(''cohort'', replicate 1000 (StrV ''large'')), (''firm_size'', replicate 1000 NaN)]\<rparr> \<and>
     iloc d 4000 5000 =
       \<lparr>index = [0..<1000],
        cols = numeric_cols X5 @
          [(''cohort'', replicate 1000 (StrV ''very large'')),
           (''firm_size'', map (\<lambda>v. FloatV (of_int v)) F5)]\<rparr> \<and>
     col d ''firm_size'' = Some fs \<and> length fs = 5000 \<and>
     length (filter (\<lambda>v. v \<noteq> NaN) fs) = 4000"
proof -
  from run_all_result[OF assms]
  obtain X1 F1 g1 X2 F2 g2 X3 F3 g3 X4 F4 g4 X5 F5 g5 where
    d1: "drawn np (rng k) r_micro 1 5 X1 F1 g1" and d2: "drawn np g1 r_small 6 25 X2 F2 g2" and
    d3: "drawn np g2 r_medium 26 100 X3 F3 g3" and d4: "drawn np g3 r_large 101 500 X4 F4 g4" and
    d5: "drawn np g4 r_very_large 501 2000 X5 F5 g5" and
    k': "k' = k\<lparr>df_1_5 := Some (cohort_frame X1 ''micro'' F1),
             df_6_25 := Some (cohort_frame X2 ''large'' F2),
             df_26_100 := Some (cohort_frame X3 ''medium'' F3),
             df_101_500 := Some (labelled_frame X4 ''large''),
             df_501 := Some (cohort_frame X5 ''very large'' F5),
             df := Some (assembled_frame X1 F1 X2 F2 X3 F3 X4 X5 F5),
             rng := g5\<rparr>"
    by blast
  from run_all_needs_df_501[OF d1 d2 d3 d4 d5 assms(2)] obtain old old' where
    old: "df_501 k = Some old" "loc_set_array old ''firm_size'' (map IntV F4) = Inr old'"
    by blast
  from run_all_steps[OF d1 d2 d3 d4 d5 old] k' obtain k3 k4 where steps:
    "bind_e (cell_micro np k) (\<lambda>k1. bind_e (cell_small np k1) (\<lambda>k2. cell_medium np k2)) = Inr k3"
    "cell_large np k3 = Inr k4" "df_501 k4 = Some old'"
    "bind_e (cell_very_large np k4) (\<lambda>k5. cell_prep k5) = Inr k'"
    by auto
  have e5: "col old' ''firm_size'' = Some (map IntV F4)"
    by (rule col_loc_set_array[OF old(2)])
  let ?d = "assembled_frame X1 F1 X2 F2 X3 F3 X4 X5 F5"
  let ?d4 = "labelled_frame X4 ''large''"
  let ?d5 = "cohort_frame X5 ''very large'' F5"
  let ?fs = "map (\<lambda>v. FloatV (of_int v)) F1 @ map (\<lambda>v. FloatV (of_int v)) F2 @
            map (\<lambda>v. FloatV (of_int v)) F3 @ replicate (length X4) NaN @
            map (\<lambda>v. FloatV (of_int v)) F5"
  note len = drawn_lengths(1,2)[OF d1] drawn_lengths(1,2)[OF d2] drawn_lengths(1,2)[OF d3]
    drawn_lengths(1,2)[OF d4] drawn_lengths(1,2)[OF d5]
  have a: "df k' = Some ?d" "df_101_500 k' = Some ?d4" "df_501 k' = Some ?d5"
    by (simp_all add: k')
  have b: "nrows ?d = 5000" "nrows ?d4 = 1000"
    by (simp_all add: nrows_def assembled_frame_def labelled_frame_def len)
  have c: "cols ?d4 = numeric_cols X4 @ [(''cohort'', replicate 1000 (StrV ''large''))]"
    "col ?d4 ''firm_size'' = None" "col ?d5 ''firm_size'' = Some (map IntV F5)"
    by (simp_all add: labelled_frame_def cohort_frame_def col_def numeric_cols_def len)
  have e: "col ?d ''firm_size'' = Some ?fs"
    by (simp add: assembled_frame_def col_def numeric_cols_def)
  have f: "length ?fs = 5000" "length (filter (\<lambda>v. v \<noteq> NaN) ?fs) = 4000"
    by (simp_all add: len o_def)
  note blocks = assembled_blocks(2,3)[of X1 X2 X3 X4 X5 F1 F2 F3 F5]
  have g: "iloc ?d 3000 4000 =
       \<lparr>index = [0..<1000],
        cols = numeric_cols X4 @
          [(''cohort'', replicate 1000 (StrV ''large'')), (''firm_size'', replicate 1000 NaN)]\<rparr>"
    "iloc ?d 4000 5000 =
       \<lparr>index = [0..<1000],
        cols = numeric_cols X5 @
          [(''cohort'', replicate 1000 (StrV ''very large'')),
           (''firm_size'', map (\<lambda>v. FloatV (of_int v)) F5)]\<rparr>"
    using blocks len by simp_all
  from a b c e f g d4 d5 drawn_lengths(3)[OF d5] steps e5 show ?thesis
    by blast
qed

theorem firm_size_missing_for_large_cohort_witness:
  "numpy_contract counter_numpy \<and>
   (\<exists>k' d fs. run_all counter_numpy session_kernel = Inr k' \<and> df k' = Some d \<and>
      nrows d = 5000 \<and> col d ''firm_size'' = Some fs \<and>
      length (filter (\<lambda>v. v \<noteq> NaN) fs) = 4000)"
proof -
  from session_kernel_df_501 obtain old where
    "df_501 session_kernel = Some old" "nrows old = num_samples" by blast
  from run_all_completes[OF counter_numpy_contract this] obtain k' where
    r: "run_all counter_numpy session_kernel = Inr k'" by blast
  from firm_size_missing_for_large_cohort[OF counter_numpy_contract r] r counter_numpy_contract
  show ?thesis by blast
qed

text \<open>
  Claim C9. In every run of the data cells that completes, the cohort column of the
  assembled frame reads, in blocks of 1000 rows: micro, large, medium, large, very large.
  The label \<open>large\<close> is on rows 1000 to 1999, drawn with \<open>r_small\<close> (correlation -0.30)
  and firm sizes from 6 (inclusive) to 25 (exclusive), and on rows 3000 to 3999, drawn with
  \<open>r_large\<close> (correlation -0.20); no row is labelled \<open>small\<close>.
\<close>

theorem cohort_label_large_on_two_cohorts:
  assumes "numpy_contract np" and "run_all np k = Inr k'"
  shows "\<exists>d X2 F2 g2 g2' X4 F4 g4 g4' labels.
     df k' = Some d \<and>
     drawn np g2 r_small 6 25 X2 F2 g2' \<and> r_small ! 0 ! 1 = - 0.30 \<and>
     drawn np g4 r_large 101 500 X4 F4 g4' \<and> r_large ! 0 ! 1 = - 0.20 \<and>
     iloc d 1000 2000 =
       \<lparr>index = [0..<1000],
        cols = numeric_cols X2 @
          [(''cohort'', replicate 1000 (StrV ''large'')),
           (''firm_size'', map (\<lambda>v. FloatV (of_int v)) F2)]\<rparr> \<and>
     list_all (\<lambda>v. 6 \<le> v \<and> v < 25) F2 \<and>
     iloc d 3000 4000 =
       \<lparr>index = [0..<1000],
        cols = numeric_cols X4 @
          [(''cohort'', replicate 1000 (StrV ''large'')), (''firm_size'', replicate 1000 NaN)]\<rparr> \<and>
     col d ''cohort'' = Some labels \<and>
     labels =
       replicate 1000 (StrV ''micro'') @ replicate 1000 (StrV ''large'') @
       replicate 1000 (StrV ''medium'') @ replicate 1000 (StrV ''large'') @
       replicate 1000 (StrV ''very large'') \<and>
     StrV ''small'' \<notin> set labels"
proof -
  from run_all_result[OF assms]
  obtain X1 F1 g1 X2 F2 g2 X3 F3 g3 X4 F4 g4 X5 F5 g5 where
    d1: "drawn np (rng k) r_micro 1 5 X1 F1 g1" and d2: "drawn np g1 r_small 6 25 X2 F2 g2" and
    d3: "drawn np g2 r_medium 26 100 X3 F3 g3" and d4: "drawn np g3 r_large 101 500 X4 F4 g4" and
    d5: "drawn np g4 r_very_large 501 2000 X5 F5 g5" and
    k': "k' = k\<lparr>df_1_5 := Some (cohort_frame X1 ''micro'' F1),
             df_6_25 := Some (cohort_frame X2 ''large'' F2),
             df_26_100 := Some (cohort_frame X3 ''medium'' F3),
             df_101_500 := Some (labelled_frame X4 ''large''),
             df_501 := Some (cohort_frame X5 ''very large'' F5),
             df := Some (assembled_frame X1 F1 X2 F2 X3 F3 X4 X5 F5),
             rng := g5\<rparr>"
    by blast
  let ?d = "assembled_frame X1 F1 X2 F2 X3 F3 X4 X5 F5"
  let ?labels = "replicate 1000 (StrV ''micro'') @ replicate 1000 (StrV ''large'') @
       replicate 1000 (StrV ''medium'') @ replicate 1000 (StrV ''large'') @
       replicate 1000 (StrV ''very large'')"
  note len = drawn_lengths(1,2)[OF d1] drawn_lengths(1,2)[OF d2] drawn_lengths(1,2)[OF d3]
    drawn_lengths(1,2)[OF d4] drawn_lengths(1,2)[OF d5]
  have a: "df k' = Some ?d"
    by (simp add: k')
  have b: "r_small ! 0 ! 1 = - 0.30" "r_large ! 0 ! 1 = - 0.20"
    by (simp_all add: r_small_def r_large_def)
  have c: "col ?d ''cohort'' = Some ?labels"
    by (simp add: assembled_frame_def col_def numeric_cols_def len)
  have e: "StrV ''small'' \<notin> set ?labels"
    by simp
  note blocks = assembled_blocks(1,2)[of X1 X2 X3 X4 X5 F1 F2 F3 F5]
  have g: "iloc ?d 1000 2000 =
       \<lparr>index = [0..<1000],
        cols = numeric_cols X2 @
          [(''cohort'', replicate 1000 (StrV ''large'')),
           (''firm_size'', map (\<lambda>v. FloatV (of_int v)) F2)]\<rparr>"
    "iloc ?d 3000 4000 =
       \<lparr>index = [0..<1000],
        cols = numeric_cols X4 @
          [(''cohort'', replicate 1000 (StrV ''large'')), (''firm_size'', replicate 1000 NaN)]\<rparr>"
    using blocks len by simp_all
  from a b c e g d2 d4 drawn_lengths(3)[OF d2] show ?thesis
    by blast
qed

theorem cohort_label_large_on_two_cohorts_witness:
  "numpy_contract counter_numpy \<and>
   (\<exists>k' d labels. run_all counter_numpy session_kernel = Inr k' \<and> df k' = Some d \<and>
      col d ''cohort'' = Some labels \<and> StrV ''small'' \<notin> set labels \<and>
      labels ! 1000 = StrV ''large'' \<and> labels ! 3000 = StrV ''large'')"
proof -
  from session_kernel_df_501 obtain old where
    "df_501 session_kernel = Some old" "nrows old = num_samples" by blast
  from run_all_completes[OF counter_numpy_contract this] obtain k' where
    r: "run_all counter_numpy session_kernel = Inr k'" by blast
  from cohort_label_large_on_two_cohorts[OF counter_numpy_contract r]
  obtain d labels where
    "df k' = Some d" "col d ''cohort'' = Some labels" "StrV ''small'' \<notin> set labels"
    "labels =
       replicate 1000 (StrV ''micro'') @ replicate 1000 (StrV ''large'') @
       replicate 1000 (StrV ''medium'') @ replicate 1000 (StrV ''large'') @
       replicate 1000 (StrV ''very large'')"
    by blast
  moreover from this(4) have "labels ! 1000 = StrV ''large''" "labels ! 3000 = StrV ''large''"
    by (simp_all add: nth_append)
  ultimately show ?thesis
    using r counter_numpy_contract by blast
qed

text \<open>
  Claim C1, at the large-firms cell. When \<^verbatim>\<open>df_501_\<close> holds the frame of an earlier
  run of the very-large-firms cell, the large-firms cell succeeds, leaves
  \<^verbatim>\<open>df_101_500\<close> without a firm-size column, and stores its 1000 draws from 101
  (inclusive) to 500 (exclusive) as the firm sizes of the rows labelled \<open>very large\<close>;
  none of these lies in the very-large range from 501 to 2000.
\<close>

theorem large_cell_writes_firm_size_to_df_501:
  assumes "numpy_contract np" and "df_501 k = Some old" and "nrows old = num_samples"
    and "col old ''cohort'' = Some (replicate num_samples (StrV ''very large''))"
  shows "\<exists>k' d4 d5 X F g'.
     cell_large np k = Inr k' \<and> drawn np (rng k) r_large 101 500 X F g' \<and>
     df_101_500 k' = Some d4 \<and> nrows d4 = 1000 \<and>
     col d4 ''cohort'' = Some (replicate 1000 (StrV ''large'')) \<and>
     col d4 ''firm_size'' = None \<and>
     df_501 k' = Some d5 \<and>
     col d5 ''cohort'' = Some (replicate 1000 (StrV ''very large'')) \<and>
     col d5 ''firm_size'' = Some (map IntV F) \<and> length F = 1000 \<and>
     list_all (\<lambda>v. 101 \<le> v \<and> v < 500) F \<and>
     list_all (\<lambda>v. \<not> (501 \<le> v \<and> v < 2000)) F"
proof -
  obtain X F g' where d: "drawn np (rng k) r_large 101 500 X F g'"
    using draws_exist[OF assms(1) shape_ok_matrices(4), of 101 500 "rng k"] by auto
  let ?d4 = "labelled_frame X ''large''"
  let ?d5 = "old\<lparr>cols := set_col ''firm_size'' (map IntV F) (cols old)\<rparr>"
  let ?k' = "k\<lparr>df_101_500 := Some ?d4, df_501 := Some ?d5, rng := g'\<rparr>"
  note len = drawn_lengths[OF d]
  from len(2) assms(3) have "length (map IntV F) = nrows old" "map IntV F \<noteq> []"
    by (auto simp: num_samples_def)
  from loc_set_array_rows[OF this]
  have w: "loc_set_array old ''firm_size'' (map IntV F) = Inr ?d5" .
  have a: "cell_large np k = Inr ?k'"
    using cell_large_drawn[OF d] assms(2) w by simp
  have b: "df_101_500 ?k' = Some ?d4" "df_501 ?k' = Some ?d5"
    by simp_all
  have c: "nrows ?d4 = 1000" "col ?d4 ''cohort'' = Some (replicate 1000 (StrV ''large''))"
    "col ?d4 ''firm_size'' = None"
    by (simp_all add: labelled_frame_def nrows_def col_def numeric_cols_def len)
  have e: "col ?d5 ''cohort'' = Some (replicate 1000 (StrV ''very large''))"
    "col ?d5 ''firm_size'' = Some (map IntV F)"
    using assms(4) by (simp_all add: col_def col_set_col num_samples_def)
  from len(3) have f: "list_all (\<lambda>v. \<not> (501 \<le> v \<and> v < 2000)) F"
    by (auto simp: list_all_iff)
  from a b c e f d len show ?thesis
    by blast
qed

theorem large_cell_writes_firm_size_to_df_501_witness:
  "numpy_contract counter_numpy \<and>
   (\<exists>old k' d4 d5 F. df_501 session_kernel = Some old \<and> nrows old = num_samples \<and>
      col old ''cohort'' = Some (replicate num_samples (StrV ''very large'')) \<and>
      cell_large counter_numpy session_kernel = Inr k' \<and>
      df_101_500 k' = Some d4 \<and> col d4 ''firm_size'' = None \<and>
      df_501 k' = Some d5 \<and> col d5 ''firm_size'' = Some (map IntV F) \<and>
      list_all (\<lambda>v. 101 \<le> v \<and> v < 500) F)"
proof -
  from session_kernel_df_501 obtain old where o:
    "df_501 session_kernel = Some old" "nrows old = num_samples"
    "col old ''cohort'' = Some (replicate num_samples (StrV ''very large''))" by blast
  from large_cell_writes_firm_size_to_df_501[OF counter_numpy_contract o] o counter_numpy_contract
  show ?thesis by blast
qed

section \<open>Concatenation\<close>

lemma length_upcast [simp]: "length (upcast vs) = length vs"
  by (simp add: upcast_def)

lemma length_col_block: "wf_frame f \<Longrightarrow> length (col_block c f) = nrows f"
  by (auto simp: wf_frame_def col_block_def col_def list_all_iff split: option.splits
      dest!: map_of_SomeD)

lemma length_concat_col_blocks:
  "list_all wf_frame fs \<Longrightarrow>
   length (concat (map (col_block c) fs)) = sum_list (map nrows fs)"
  by (induction fs) (simp_all add: length_col_block)

lemma col_block_missing: "c \<notin> set (columns f) \<Longrightarrow> col_block c f = replicate (nrows f) NaN"
proof -
  assume "c \<notin> set (columns f)"
  then have "map_of (cols f) c = None"
    by (simp add: columns_def map_of_eq_None_iff)
  then show ?thesis
    by (simp add: col_block_def col_def)
qed

lemma map_of_tabulate:
  "map_of (map (\<lambda>c. (c, g c)) xs) c = (if c \<in> set xs then Some (g c) else None)"
  by (induction xs) auto

lemma set_all_columns: "set (all_columns fs) = (\<Union>f\<in>set fs. set (columns f))"
  by (simp add: all_columns_def)

lemma pd_concat_nonempty:
  assumes "fs \<noteq> []"
  shows "pd_concat fs =
         Inr \<lparr>index = concat (map index fs),
              cols = map (\<lambda>c. (c, upcast (concat (map (col_block c) fs)))) (all_columns fs)\<rparr>"
  using assms by (simp add: pd_concat_def)

lemma nrows_concat: "length (concat (map index fs)) = sum_list (map nrows fs)"
  by (induction fs) (simp_all add: nrows_def)

lemma take_drop_upcast:
  assumes "take n (drop m ws) = replicate n' NaN"
  shows "take n (drop m (upcast ws)) = replicate n' NaN"
proof (cases "upcast ws = ws")
  case True
  with assms show ?thesis by simp
next
  case False
  then have "upcast ws = map to_float ws"
    by (simp add: upcast_def split: if_splits)
  then have "take n (drop m (upcast ws)) = map to_float (take n (drop m ws))"
    by (simp add: take_map drop_map)
  with assms show ?thesis by simp
qed

lemma pd_concat_null_block:
  assumes "list_all wf_frame pre" and "c \<notin> set (columns f)"
    and "c \<in> set (all_columns (pre @ f # post))"
  shows "\<exists>d vs. pd_concat (pre @ f # post) = Inr d \<and> col d c = Some vs \<and>
           take (nrows f) (drop (sum_list (map nrows pre)) vs) = replicate (nrows f) NaN"
proof -
  let ?fs = "pre @ f # post"
  let ?ws = "concat (map (col_block c) ?fs)"
  let ?d = "\<lparr>index = concat (map index ?fs),
              cols = map (\<lambda>c. (c, upcast (concat (map (col_block c) ?fs)))) (all_columns ?fs)\<rparr>"
  have a: "pd_concat ?fs = Inr ?d"
    by (rule pd_concat_nonempty) simp
  from assms(3) have b: "col ?d c = Some (upcast ?ws)"
    by (simp add: col_def map_of_tabulate)
  have "take (nrows f) (drop (sum_list (map nrows pre)) ?ws) = replicate (nrows f) NaN"
    using length_concat_col_blocks[OF assms(1), of c] col_block_missing[OF assms(2)]
    by simp
  then have "take (nrows f) (drop (sum_list (map nrows pre)) (upcast ?ws)) =
             replicate (nrows f) NaN"
    by (rule take_drop_upcast)
  with a b show ?thesis by blast
qed

lemma wf_pd_concat:
  assumes "list_all wf_frame fs"
  shows "wf_frame \<lparr>index = concat (map index fs),
              cols = map (\<lambda>c. (c, upcast (concat (map (col_block c) fs)))) (all_columns fs)\<rparr>"
proof -
  have "length (concat (map index fs)) = sum_list (map nrows fs)"
    by (rule nrows_concat)
  with length_concat_col_blocks[OF assms] show ?thesis
    by (simp add: wf_frame_def list_all_iff nrows_def)
qed

text \<open>
  Claim C3, as amended. For every non-empty sequence of frames \<^verbatim>\<open>pd.concat\<close> returns
  a frame whose index is the chain of the input indexes, so its length is the sum of the
  input lengths, and every column has that length when the inputs are well formed; in the
  notebook, the assembled frame has as many rows as the five frames together.
\<close>

theorem concat_length_is_sum:
  "(fs \<noteq> [] \<longrightarrow>
      (\<exists>d. pd_concat fs = Inr d \<and> index d = concat (map index fs) \<and>
           nrows d = sum_list (map nrows fs) \<and>
           (list_all wf_frame fs \<longrightarrow> wf_frame d))) \<and>
   (df_1_5 k = Some d1 \<and> df_6_25 k = Some d2 \<and> df_26_100 k = Some d3 \<and>
    df_101_500 k = Some d4 \<and> df_501 k = Some d5 \<longrightarrow>
      (\<exists>d. cell_prep k = Inr (k\<lparr>df := Some d\<rparr>) \<and>
           nrows d = nrows d1 + nrows d2 + nrows d3 + nrows d4 + nrows d5))"
proof (intro conjI impI)
  let ?d = "\<lambda>fs. \<lparr>index = concat (map index fs),
              cols = map (\<lambda>c. (c, upcast (concat (map (col_block c) fs)))) (all_columns fs)\<rparr>"
  have n: "nrows (?d fs) = sum_list (map nrows fs)" for fs
    using nrows_concat[of fs] by (simp add: nrows_def)
  {
    assume "fs \<noteq> []"
    from pd_concat_nonempty[OF this] n[of fs] wf_pd_concat[of fs]
    show "\<exists>d. pd_concat fs = Inr d \<and> index d = concat (map index fs) \<and>
             nrows d = sum_list (map nrows fs) \<and>
             (list_all wf_frame fs \<longrightarrow> wf_frame d)"
      by auto
  }
  {
    assume b: "df_1_5 k = Some d1 \<and> df_6_25 k = Some d2 \<and> df_26_100 k = Some d3 \<and>
         df_101_500 k = Some d4 \<and> df_501 k = Some d5"
    have "pd_concat [d1, d2, d3, d4, d5] = Inr (?d [d1, d2, d3, d4, d5])"
      by (rule pd_concat_nonempty) simp
    with b have "cell_prep k = Inr (k\<lparr>df := Some (?d [d1, d2, d3, d4, d5])\<rparr>)"
      by (simp add: cell_prep_def lookup_name_def)
    moreover have "nrows (?d [d1, d2, d3, d4, d5]) =
        nrows d1 + nrows d2 + nrows d3 + nrows d4 + nrows d5"
      using n[of "[d1, d2, d3, d4, d5]"] by simp
    ultimately show "\<exists>d. cell_prep k = Inr (k\<lparr>df := Some d\<rparr>) \<and>
              nrows d = nrows d1 + nrows d2 + nrows d3 + nrows d4 + nrows d5"
      by blast
  }
qed

lemma wf_small_frames: "wf_frame frame_a" "wf_frame frame_b"
  by (simp_all add: wf_frame_def frame_a_def frame_b_def nrows_def)

theorem concat_length_is_sum_witness:
  "[frame_a, frame_b] \<noteq> [] \<and> list_all wf_frame [frame_a, frame_b] \<and>
   (\<exists>d. pd_concat [frame_a, frame_b] = Inr d \<and> nrows d = 3 \<and> wf_frame d) \<and>
   df_1_5 small_kernel = Some frame_a \<and> df_6_25 small_kernel = Some frame_a \<and>
   df_26_100 small_kernel = Some frame_a \<and> df_101_500 small_kernel = Some frame_b \<and>
   df_501 small_kernel = Some frame_a \<and>
   (\<exists>d. cell_prep small_kernel = Inr (small_kernel\<lparr>df := Some d\<rparr>) \<and> nrows d = 9)"
proof -
  have w: "list_all wf_frame [frame_a, frame_b]"
    by (simp add: wf_small_frames)
  have b: "df_1_5 small_kernel = Some frame_a \<and> df_6_25 small_kernel = Some frame_a \<and>
    df_26_100 small_kernel = Some frame_a \<and> df_101_500 small_kernel = Some frame_b \<and>
    df_501 small_kernel = Some frame_a"
    by (simp add: small_kernel_def)
  have n: "nrows frame_a = 2" "nrows frame_b = 1"
    by (simp_all add: nrows_def frame_a_def frame_b_def)
  from concat_length_is_sum[of "[frame_a, frame_b]" small_kernel frame_a frame_a frame_a
      frame_b frame_a] w b n
  show ?thesis by auto
qed

text \<open>
  Claim C2, as amended. The assembling cell never fails because the field sets differ:
  whenever the five names are bound it returns the frame that \<^verbatim>\<open>pd.concat\<close> builds,
  whose columns are the union of the five frames' columns; a frame that lacks a column of
  the result contributes nulls to it, at its own rows (the frames being well formed).
\<close>

theorem assemble_fills_missing_fields:
  assumes "df_1_5 k = Some d1" "df_6_25 k = Some d2" "df_26_100 k = Some d3"
    "df_101_500 k = Some d4" "df_501 k = Some d5"
    and "fs = [d1, d2, d3, d4, d5]"
  shows "\<exists>d. cell_prep k = Inr (k\<lparr>df := Some d\<rparr>) \<and>
           set (columns d) = (\<Union>f\<in>set fs. set (columns f)) \<and>
           (\<forall>i c. list_all wf_frame fs \<and> i < 5 \<and> c \<in> set (columns d) \<and>
                  c \<notin> set (columns (fs ! i)) \<longrightarrow>
              (\<exists>vs. col d c = Some vs \<and>
                 take (nrows (fs ! i)) (drop (sum_list (map nrows (take i fs))) vs) =
                   replicate (nrows (fs ! i)) NaN))"
proof -
  let ?d = "\<lparr>index = concat (map index fs),
              cols = map (\<lambda>c. (c, upcast (concat (map (col_block c) fs)))) (all_columns fs)\<rparr>"
  from assms(6) have len: "length fs = 5" by simp
  from assms(6) have ne: "fs \<noteq> []" by simp
  have a: "pd_concat fs = Inr ?d"
    by (rule pd_concat_nonempty[OF ne])
  with assms have b: "cell_prep k = Inr (k\<lparr>df := Some ?d\<rparr>)"
    by (simp add: cell_prep_def lookup_name_def)
  have c: "set (columns ?d) = (\<Union>f\<in>set fs. set (columns f))"
    by (simp add: columns_def o_def set_all_columns)
  have n: "\<exists>vs. col ?d c = Some vs \<and>
                 take (nrows (fs ! i)) (drop (sum_list (map nrows (take i fs))) vs) =
                   replicate (nrows (fs ! i)) NaN"
    if h: "list_all wf_frame fs \<and> i < 5 \<and> c \<in> set (columns ?d) \<and> c \<notin> set (columns (fs ! i))"
    for i c
  proof -
    from h len have split: "fs = take i fs @ fs ! i # drop (Suc i) fs"
      by (simp add: id_take_nth_drop)
    from h have "list_all wf_frame (take i fs)"
      by (auto simp: list_all_iff dest: in_set_takeD)
    moreover from h c have "c \<in> set (all_columns fs)"
      by (simp add: set_all_columns)
    ultimately obtain d vs where
      "pd_concat (take i fs @ fs ! i # drop (Suc i) fs) = Inr d" "col d c = Some vs"
      "take (nrows (fs ! i)) (drop (sum_list (map nrows (take i fs))) vs) =
         replicate (nrows (fs ! i)) NaN"
      using pd_concat_null_block[of "take i fs" c "fs ! i" "drop (Suc i) fs"] h split
      by auto
    with a split show ?thesis
      by simp
  qed
  from b c n show ?thesis by blast
qed

theorem assemble_fills_missing_fields_witness:
  "df_1_5 small_kernel = Some frame_a \<and> df_6_25 small_kernel = Some frame_a \<and>
   df_26_100 small_kernel = Some frame_a \<and> df_101_500 small_kernel = Some frame_b \<and>
   df_501 small_kernel = Some frame_a \<and>
   (\<exists>d. cell_prep small_kernel = Inr (small_kernel\<lparr>df := Some d\<rparr>) \<and>
      list_all wf_frame [frame_a, frame_a, frame_a, frame_b, frame_a] \<and> (3::nat) < 5 \<and>
      ''firm_size'' \<in> set (columns d) \<and>
      ''firm_size'' \<notin> set (columns ([frame_a, frame_a, frame_a, frame_b, frame_a] ! 3)) \<and>
      (\<exists>vs. col d ''firm_size'' = Some vs \<and> take 1 (drop 6 vs) = [NaN]))"
proof -
  let ?fs = "[frame_a, frame_a, frame_a, frame_b, frame_a]"
  have b: "df_1_5 small_kernel = Some frame_a" "df_6_25 small_kernel = Some frame_a"
    "df_26_100 small_kernel = Some frame_a" "df_101_500 small_kernel = Some frame_b"
    "df_501 small_kernel = Some frame_a"
    by (simp_all add: small_kernel_def)
  have w: "list_all wf_frame ?fs"
    by (simp add: wf_small_frames)
  have i: "(3::nat) < 5" "''firm_size'' \<notin> set (columns (?fs ! 3))"
    by (simp_all add: columns_def frame_b_def)
  have n: "nrows frame_a = 2" "nrows frame_b = 1"
    by (simp_all add: nrows_def frame_a_def frame_b_def)
  from assemble_fills_missing_fields[OF b refl] obtain d where d:
    "cell_prep small_kernel = Inr (small_kernel\<lparr>df := Some d\<rparr>)"
    "set (columns d) = (\<Union>f\<in>set ?fs. set (columns f))"
    "\<forall>i c. list_all wf_frame ?fs \<and> i < 5 \<and> c \<in> set (columns d) \<and>
                  c \<notin> set (columns (?fs ! i)) \<longrightarrow>
              (\<exists>vs. col d c = Some vs \<and>
                 take (nrows (?fs ! i)) (drop (sum_list (map nrows (take i ?fs))) vs) =
                   replicate (nrows (?fs ! i)) NaN)"
    by blast
  from d(2) have j: "''firm_size'' \<in> set (columns d)"
    by (simp add: columns_def frame_a_def)
  with d(3) w i obtain vs where
    "col d ''firm_size'' = Some vs"
    "take (nrows (?fs ! 3)) (drop (sum_list (map nrows (take 3 ?fs))) vs) =
       replicate (nrows (?fs ! 3)) NaN"
    by blast
  moreover from this(2) have "take 1 (drop 6 vs) = [NaN]"
    by (simp add: n eval_nat_numeral)
  ultimately show ?thesis
    using b w i j d(1) by blast
qed

text \<open>
  Claim C2 as stated fails: with a fourth frame that has no \<^verbatim>\<open>firm_size\<close> column
  the assembling cell returns a frame, null in that column at the fourth frame's row.
\<close>

theorem assemble_differing_fields_no_error:
  "columns frame_b \<noteq> columns frame_a \<and>
   cell_prep small_kernel =
     Inr (small_kernel\<lparr>df := Some
       \<lparr>index = [0, 1, 0, 1, 0, 1, 0, 0, 1],
        cols = [(''job_sat'', [FloatV 0.5, FloatV (- 1), FloatV 0.5, FloatV (- 1), FloatV 0.5,
                              FloatV (- 1), FloatV 2, FloatV 0.5, FloatV (- 1)]),
                (''firm_size'', [FloatV 3, FloatV 4, FloatV 3, FloatV 4, FloatV 3, FloatV 4,
                                NaN, FloatV 3, FloatV 4])]\<rparr>\<rparr>)"
  by (simp add: cell_prep_def lookup_name_def small_kernel_def pd_concat_def all_columns_def
      columns_def col_block_def col_def nrows_def upcast_def frame_a_def frame_b_def)

text \<open>Claim C3 as stated fails on the empty sequence: \<^verbatim>\<open>pd.concat([])\<close> raises.\<close>

theorem concat_of_nothing_raises:
  "pd_concat [] = Inl (ValueError ''No objects to concatenate'')"
  by (simp add: pd_concat_def)

section \<open>Sampling\<close>

lemma sample_frame_ok:
  assumes "numpy_contract np" and "shape_ok mu r"
  shows "\<exists>X g'. multivariate_normal np g mu r num_samples = Inr (X, g') \<and>
           length X = num_samples \<and> sample_frame np g r = Inr (sampled_frame X, g')"
proof -
  from assms obtain X g' where
    X: "multivariate_normal np g mu r num_samples = Inr (X, g')" "length X = num_samples"
       "list_all (\<lambda>row. length row = length mu) X"
    unfolding numpy_contract_def by blast
  from X(3) have "list_all (\<lambda>row. length row = 4) X"
    by (simp add: mu_def)
  with X(1) have "sample_frame np g r = Inr (sampled_frame X, g')"
    by (simp add: sample_frame_def DataFrame_names)
  with X show ?thesis by blast
qed

lemma sampled_frame_shape:
  "nrows (sampled_frame X) = length X" "columns (sampled_frame X) = names"
  by (simp_all add: sampled_frame_def nrows_def columns_def numeric_cols_def names_def)

text \<open>
  Claim C5, as amended. The sampling statement does not validate the matrix and has no
  error for an invalid one: for every 4 by 4 matrix, symmetric positive semidefinite or
  not, it returns a frame of \<open>num_samples\<close> observations with the four numeric columns.
\<close>

theorem sampling_accepts_any_square_matrix:
  assumes "numpy_contract np" and "shape_ok mu r"
  shows "\<exists>d g'. sample_frame np g r = Inr (d, g') \<and> nrows d = num_samples \<and> columns d = names"
  using sample_frame_ok[OF assms, of g] sampled_frame_shape by fastforce

lemma skewed_matrix_invalid:
  "shape_ok mu skewed_matrix" "\<not> symmetric skewed_matrix"
  "\<not> positive_semidefinite skewed_matrix"
proof -
  show "shape_ok mu skewed_matrix"
    by (simp add: shape_ok_def mu_def skewed_matrix_def)
  show "\<not> symmetric skewed_matrix"
    by (simp add: symmetric_def skewed_matrix_def upt_rec)
  have "length [1, - 1, 0, 0 :: real] = length skewed_matrix"
    "\<not> 0 \<le> dot [1, - 1, 0, 0] (mat_vec skewed_matrix [1, - 1, 0, 0])"
    by (simp_all add: skewed_matrix_def dot_def mat_vec_def)
  then show "\<not> positive_semidefinite skewed_matrix"
    unfolding positive_semidefinite_def by blast
qed

theorem sampling_accepts_any_square_matrix_witness:
  "numpy_contract counter_numpy \<and> shape_ok mu skewed_matrix \<and>
   (\<exists>d g'. sample_frame counter_numpy 0 skewed_matrix = Inr (d, g') \<and>
      nrows d = num_samples \<and> columns d = names)"
  using sampling_accepts_any_square_matrix[OF counter_numpy_contract skewed_matrix_invalid(1), of 0]
    counter_numpy_contract skewed_matrix_invalid(1)
  by blast

text \<open>
  Claim C5 as stated fails: on a matrix that is neither symmetric nor positive
  semidefinite the sampling statement returns 1000 observations.
\<close>

theorem sampling_invalid_matrix_no_error:
  "\<not> symmetric skewed_matrix \<and> \<not> positive_semidefinite skewed_matrix \<and>
   map_sum id (\<lambda>(d, g). nrows d) (sample_frame counter_numpy 0 skewed_matrix) = Inr 1000"
proof -
  from sample_frame_ok[OF counter_numpy_contract skewed_matrix_invalid(1), of 0]
  obtain X g' where "length X = num_samples"
    "sample_frame counter_numpy 0 skewed_matrix = Inr (sampled_frame X, g')"
    by blast
  then have "map_sum id (\<lambda>(d, g). nrows d) (sample_frame counter_numpy 0 skewed_matrix) = Inr 1000"
    by (simp add: sampled_frame_shape num_samples_def)
  with skewed_matrix_invalid(2,3) show ?thesis by blast
qed


lemma cell_micro_inv:
  assumes "cell_micro np k = Inr k'"
  shows "\<exists>X g1 F d d'. multivariate_normal np (rng k) mu r_micro num_samples = Inr (X, g1) \<and>
           randint np g1 1 5 num_samples = Inr (F, rng k') \<and> df_1_5 k' = Some d' \<and>
           df k' = df k \<and>
           DataFrame X names = Inr d \<and>
           loc_set_array (loc_set_scalar d ''cohort''
              (StrV ''micro'')) ''firm_size'' (map IntV F) = Inr d'"
  using assms unfolding cell_micro_def sample_frame_def bind_e_def
  by (auto split: sum.splits prod.splits)

lemma cell_small_inv:
  assumes "cell_small np k = Inr k'"
  shows "\<exists>X g1 F d d'. multivariate_normal np (rng k) mu r_small num_samples = Inr (X, g1) \<and>
           randint np g1 6 25 num_samples = Inr (F, rng k') \<and> df_6_25 k' = Some d' \<and>
           df k' = df k \<and>
           DataFrame X names = Inr d \<and>
           loc_set_array (loc_set_scalar d ''cohort''
              (StrV ''large'')) ''firm_size'' (map IntV F) = Inr d'"
  using assms unfolding cell_small_def sample_frame_def bind_e_def
  by (auto split: sum.splits prod.splits)

lemma cell_medium_inv:
  assumes "cell_medium np k = Inr k'"
  shows "\<exists>X g1 F d d'. multivariate_normal np (rng k) mu r_medium num_samples = Inr (X, g1) \<and>
           randint np g1 26 100 num_samples = Inr (F, rng k') \<and> df_26_100 k' = Some d' \<and>
           df k' = df k \<and>
           DataFrame X names = Inr d \<and>
           loc_set_array (loc_set_scalar d ''cohort''
              (StrV ''medium'')) ''firm_size'' (map IntV F) = Inr d'"
  using assms unfolding cell_medium_def sample_frame_def bind_e_def
  by (auto split: sum.splits prod.splits)

lemma cell_large_inv:
  assumes "cell_large np k = Inr k'"
  shows "\<exists>X g1 F d d'. multivariate_normal np (rng k) mu r_large num_samples = Inr (X, g1) \<and>
           randint np g1 101 500 num_samples = Inr (F, rng k') \<and> df_101_500 k' = Some d' \<and>
           df k' = df k \<and>
           DataFrame X names = Inr d \<and>
           Inr (loc_set_scalar d ''cohort''
              (StrV ''large'')) = Inr d'"
  using assms unfolding cell_large_def sample_frame_def bind_e_def
  by (auto split: sum.splits prod.splits)

lemma cell_very_large_inv:
  assumes "cell_very_large np k = Inr k'"
  shows "\<exists>X g1 F d d'. multivariate_normal np (rng k) mu r_very_large num_samples = Inr (X, g1) \<and>
           randint np g1 501 2000 num_samples = Inr (F, rng k') \<and> df_501 k' = Some d' \<and>
           df k' = df k \<and>
           DataFrame X names = Inr d \<and>
           loc_set_array (loc_set_scalar d ''cohort''
              (StrV ''very large'')) ''firm_size'' (map IntV F) = Inr d'"
  using assms unfolding cell_very_large_def sample_frame_def bind_e_def
  by (auto split: sum.splits prod.splits)

lemma determined_by_generator:
  fixes np :: "'g numpy" and c :: "'g numpy \<Rightarrow> 'g kernel \<Rightarrow> py_error + 'g kernel"
    and var :: "'g kernel \<Rightarrow> dataframe option"
    and build :: "dataframe \<Rightarrow> int list \<Rightarrow> py_error + dataframe"
  assumes inv: "\<And>k k'. c np k = Inr k' \<Longrightarrow>
      \<exists>X g1 F d d'. multivariate_normal np (rng k) mu r num_samples = Inr (X, g1) \<and>
           randint np g1 low high num_samples = Inr (F, rng k') \<and> var k' = Some d' \<and>
           df k' = df k \<and> DataFrame X names = Inr d \<and> build d F = Inr d'"
    and "rng k1 = rng k2" "c np k1 = Inr k1'" "c np k2 = Inr k2'"
  shows "var k1' = var k2' \<and> rng k1' = rng k2'"
proof -
  from assms(3) inv[of k1 k1'] obtain X g1 F d d' where 1:
    "multivariate_normal np (rng k1) mu r num_samples = Inr (X, g1)"
    "randint np g1 low high num_samples = Inr (F, rng k1')" "var k1' = Some d'"
    "DataFrame X names = Inr d" "build d F = Inr d'"
    by blast
  from assms(4) inv[of k2 k2'] obtain Y h1 G e e' where 2:
    "multivariate_normal np (rng k2) mu r num_samples = Inr (Y, h1)"
    "randint np h1 low high num_samples = Inr (G, rng k2')" "var k2' = Some e'"
    "DataFrame Y names = Inr e" "build e G = Inr e'"
    by blast
  from assms(2) 1(1) 2(1) have xy: "X = Y" "g1 = h1"
    by simp_all
  with 1(2) 2(2) have fg: "F = G" "rng k1' = rng k2'"
    by simp_all
  from xy 1(4) 2(4) have "d = e"
    by simp
  with fg 1(5) 2(5) have "d' = e'"
    by simp
  with 1(3) 2(3) fg show ?thesis
    by simp
qed

lemma sampling_cells_cases:
  assumes "(c, var, r, low, high) \<in> set sampling_cells"
  obtains
    "c = cell_micro" "var = df_1_5" "r = r_micro" "low = 1" "high = 5"
    | "c = cell_small" "var = df_6_25" "r = r_small" "low = 6" "high = 25"
    | "c = cell_medium" "var = df_26_100" "r = r_medium" "low = 26" "high = 100"
    | "c = cell_large" "var = df_101_500" "r = r_large" "low = 101" "high = 500"
    | "c = cell_very_large" "var = df_501" "r = r_very_large" "low = 501" "high = 2000"
  using assms by (auto simp: sampling_cells_def)

lemma same_generator_same_sample:
  fixes np :: "'g numpy"
  assumes "(c, var, r, low, high) \<in> set sampling_cells"
    and "rng k1 = rng k2" "c np k1 = Inr k1'" "c np k2 = Inr k2'"
  shows "var k1' = var k2' \<and> rng k1' = rng k2'"
  using assms(1)
proof (cases rule: sampling_cells_cases)
  case 1
  from assms(2-4) show ?thesis
    unfolding 1 by (rule determined_by_generator[rotated]) (erule cell_micro_inv)
next
  case 2
  from assms(2-4) show ?thesis
    unfolding 2 by (rule determined_by_generator[rotated]) (erule cell_small_inv)
next
  case 3
  from assms(2-4) show ?thesis
    unfolding 3 by (rule determined_by_generator[rotated]) (erule cell_medium_inv)
next
  case 4
  from assms(2-4) show ?thesis
    unfolding 4 by (rule determined_by_generator[rotated]) (erule cell_large_inv)
next
  case 5
  from assms(2-4) show ?thesis
    unfolding 5 by (rule determined_by_generator[rotated]) (erule cell_very_large_inv)
qed

lemma numeric_cols_inj:
  assumes "list_all (\<lambda>row. length row = 4) X" "list_all (\<lambda>row. length row = 4) Y"
    and "numeric_cols X = numeric_cols Y"
  shows "X = Y"
proof (rule nth_equalityI)
  from assms(3) have m:
    "map (\<lambda>row. FloatV (row ! 0)) X = map (\<lambda>row. FloatV (row ! 0)) Y"
    "map (\<lambda>row. FloatV (row ! 1)) X = map (\<lambda>row. FloatV (row ! 1)) Y"
    "map (\<lambda>row. FloatV (row ! 2)) X = map (\<lambda>row. FloatV (row ! 2)) Y"
    "map (\<lambda>row. FloatV (row ! 3)) X = map (\<lambda>row. FloatV (row ! 3)) Y"
    by (simp_all add: numeric_cols_def)
  from m(1) show len: "length X = length Y"
    by (rule map_eq_imp_length_eq)
  fix i
  assume i: "i < length X"
  with len assms(1,2) have w: "length (X ! i) = 4" "length (Y ! i) = 4"
    by (simp_all add: list_all_length)
  have "map (\<lambda>row. FloatV (row ! 0)) X ! i = map (\<lambda>row. FloatV (row ! 0)) Y ! i"
    "map (\<lambda>row. FloatV (row ! 1)) X ! i = map (\<lambda>row. FloatV (row ! 1)) Y ! i"
    "map (\<lambda>row. FloatV (row ! 2)) X ! i = map (\<lambda>row. FloatV (row ! 2)) Y ! i"
    "map (\<lambda>row. FloatV (row ! 3)) X ! i = map (\<lambda>row. FloatV (row ! 3)) Y ! i"
    by (simp_all only: m)
  with i len have e: "X ! i ! 0 = Y ! i ! 0" "X ! i ! 1 = Y ! i ! 1" "X ! i ! 2 = Y ! i ! 2"
    "X ! i ! 3 = Y ! i ! 3"
    by simp_all
  have "X ! i ! j = Y ! i ! j" if "j < 4" for j
  proof -
    from that have "j = 0 \<or> j = 1 \<or> j = 2 \<or> j = 3"
      by arith
    with e show ?thesis
      by auto
  qed
  with w show "X ! i = Y ! i"
    by (simp add: list_eq_iff_nth_eq)
qed

lemma same_frame_same_draw:
  assumes d1: "drawn np g r low high X F g'" and d2: "drawn np h r low high Y G h'"
    and eq: "cohort_frame X lab F = cohort_frame Y lab G \<or>
             labelled_frame X lab = labelled_frame Y lab"
  shows "\<exists>g1 g2. multivariate_normal np g mu r num_samples = Inr (X, g1) \<and>
                 multivariate_normal np h mu r num_samples = Inr (X, g2)"
proof -
  from eq have "numeric_cols X = numeric_cols Y"
    by (auto simp: cohort_frame_def labelled_frame_def numeric_cols_def)
  with d1 d2 have "X = Y"
    by (intro numeric_cols_inj) (simp_all add: drawn_def)
  with d1 d2 show ?thesis
    by (auto simp: drawn_def)
qed

lemma same_sample_same_draw:
  fixes np :: "'g numpy"
  assumes "(c, var, r, low, high) \<in> set sampling_cells" and np: "numpy_contract np"
    and r1: "c np k1 = Inr k1'" and r2: "c np k2 = Inr k2'" and eq: "var k1' = var k2'"
  shows "\<exists>X g1 g2. multivariate_normal np (rng k1) mu r num_samples = Inr (X, g1) \<and>
                   multivariate_normal np (rng k2) mu r num_samples = Inr (X, g2)"
  using assms(1)
proof (cases rule: sampling_cells_cases)
  case 1
  obtain X F g' where d1: "drawn np (rng k1) r_micro 1 5 X F g'"
    using draws_exist[OF np shape_ok_matrices(1), of 1 5 "rng k1"] by auto
  obtain Y G h' where d2: "drawn np (rng k2) r_micro 1 5 Y G h'"
    using draws_exist[OF np shape_ok_matrices(1), of 1 5 "rng k2"] by auto
  from cell_micro_drawn[OF d1] cell_micro_drawn[OF d2] r1 r2 eq
  have "cohort_frame X ''micro'' F = cohort_frame Y ''micro'' G"
    unfolding 1 by auto
  with same_frame_same_draw[OF d1 d2] show ?thesis
    unfolding 1 by blast
next
  case 2
  obtain X F g' where d1: "drawn np (rng k1) r_small 6 25 X F g'"
    using draws_exist[OF np shape_ok_matrices(2), of 6 25 "rng k1"] by auto
  obtain Y G h' where d2: "drawn np (rng k2) r_small 6 25 Y G h'"
    using draws_exist[OF np shape_ok_matrices(2), of 6 25 "rng k2"] by auto
  from cell_small_drawn[OF d1] cell_small_drawn[OF d2] r1 r2 eq
  have "cohort_frame X ''large'' F = cohort_frame Y ''large'' G"
    unfolding 2 by auto
  with same_frame_same_draw[OF d1 d2] show ?thesis
    unfolding 2 by blast
next
  case 3
  obtain X F g' where d1: "drawn np (rng k1) r_medium 26 100 X F g'"
    using draws_exist[OF np shape_ok_matrices(3), of 26 100 "rng k1"] by auto
  obtain Y G h' where d2: "drawn np (rng k2) r_medium 26 100 Y G h'"
    using draws_exist[OF np shape_ok_matrices(3), of 26 100 "rng k2"] by auto
  from cell_medium_drawn[OF d1] cell_medium_drawn[OF d2] r1 r2 eq
  have "cohort_frame X ''medium'' F = cohort_frame Y ''medium'' G"
    unfolding 3 by auto
  with same_frame_same_draw[OF d1 d2] show ?thesis
    unfolding 3 by blast
next
  case 4
  obtain X F g' where d1: "drawn np (rng k1) r_large 101 500 X F g'"
    using draws_exist[OF np shape_ok_matrices(4), of 101 500 "rng k1"] by auto
  obtain Y G h' where d2: "drawn np (rng k2) r_large 101 500 Y G h'"
    using draws_exist[OF np shape_ok_matrices(4), of 101 500 "rng k2"] by auto
  from cell_large_drawn[OF d1] r1 have "df_101_500 k1' = Some (labelled_frame X ''large'')"
    unfolding 4 by (auto split: option.splits sum.splits)
  moreover
  from cell_large_drawn[OF d2] r2 have "df_101_500 k2' = Some (labelled_frame Y ''large'')"
    unfolding 4 by (auto split: option.splits sum.splits)
  ultimately have "labelled_frame X ''large'' = labelled_frame Y ''large''"
    using eq unfolding 4 by simp
  with same_frame_same_draw[OF d1 d2] show ?thesis
    unfolding 4 by blast
next
  case 5
  obtain X F g' where d1: "drawn np (rng k1) r_very_large 501 2000 X F g'"
    using draws_exist[OF np shape_ok_matrices(5), of 501 2000 "rng k1"] by auto
  obtain Y G h' where d2: "drawn np (rng k2) r_very_large 501 2000 Y G h'"
    using draws_exist[OF np shape_ok_matrices(5), of 501 2000 "rng k2"] by auto
  from cell_very_large_drawn[OF d1] cell_very_large_drawn[OF d2] r1 r2 eq
  have "cohort_frame X ''very large'' F = cohort_frame Y ''very large'' G"
    unfolding 5 by auto
  with same_frame_same_draw[OF d1 d2] show ?thesis
    unfolding 5 by blast
qed

lemma cell_large_trace_drawn:
  assumes "drawn np (rng k) r_large 101 500 X F g'"
  shows "cell_large_trace np k =
    (case df_501 k of
       None \<Rightarrow>
         (k\<lparr>df_101_500 := Some (labelled_frame X ''large''), rng := g'\<rparr>,
          Some (NameError ''df_501_''))
     | Some old \<Rightarrow>
        (case loc_set_array old ''firm_size'' (map IntV F) of
           Inl e \<Rightarrow> (k\<lparr>df_101_500 := Some (labelled_frame X ''large''), rng := g'\<rparr>, Some e)
         | Inr old' \<Rightarrow>
            (k\<lparr>df_101_500 := Some (labelled_frame X ''large''), df_501 := Some old',
               rng := g'\<rparr>, None)))"
proof -
  from assms obtain g1 where
    "multivariate_normal np (rng k) mu r_large num_samples = Inr (X, g1)"
    "randint np g1 101 500 num_samples = Inr (F, g')"
    "list_all (\<lambda>row. length row = 4) X"
    by (auto simp: drawn_def)
  moreover from this(3) have "DataFrame X names = Inr (sampled_frame X)"
    by (rule DataFrame_names)
  ultimately show ?thesis
    by (simp add: cell_large_trace_def loc_set_scalar_sampled lookup_name_def
        split: option.splits sum.splits)
qed

lemma cell_large_trace_result:
  "cell_large np k = (case cell_large_trace np k of (k', None) \<Rightarrow> Inr k' | (k', Some e) \<Rightarrow> Inl e)"
  by (simp add: cell_large_def cell_large_trace_def sample_frame_def bind_e_def
      split: sum.splits prod.splits option.splits)

lemma cell_completes:
  assumes "numpy_contract np"
  shows "\<exists>k'. cell_micro np k = Inr k'" "\<exists>k'. cell_small np k = Inr k'"
    "\<exists>k'. cell_medium np k = Inr k'" "\<exists>k'. cell_very_large np k = Inr k'"
proof -
  from draws_exist[OF assms shape_ok_matrices(1), of 1 5 "rng k"] cell_micro_drawn[of np k]
  show "\<exists>k'. cell_micro np k = Inr k'" by auto
  from draws_exist[OF assms shape_ok_matrices(2), of 6 25 "rng k"] cell_small_drawn[of np k]
  show "\<exists>k'. cell_small np k = Inr k'" by auto
  from draws_exist[OF assms shape_ok_matrices(3), of 26 100 "rng k"] cell_medium_drawn[of np k]
  show "\<exists>k'. cell_medium np k = Inr k'" by auto
  from draws_exist[OF assms shape_ok_matrices(5), of 501 2000 "rng k"]
    cell_very_large_drawn[of np k]
  show "\<exists>k'. cell_very_large np k = Inr k'" by auto
qed

lemma cell_large_completes:
  assumes "numpy_contract np" "df_501 k = Some old" "nrows old = num_samples"
  shows "\<exists>k'. cell_large np k = Inr k'"
proof -
  obtain X F g' where d: "drawn np (rng k) r_large 101 500 X F g'"
    using draws_exist[OF assms(1) shape_ok_matrices(4), of 101 500 "rng k"] by auto
  from drawn_lengths(2)[OF d] assms(3)
  have "length (map IntV F) = nrows old" "map IntV F \<noteq> []"
    by (auto simp: num_samples_def)
  from loc_set_array_rows[OF this]
  have "loc_set_array old ''firm_size'' (map IntV F) =
        Inr (old\<lparr>cols := set_col ''firm_size'' (map IntV F) (cols old)\<rparr>)" .
  with cell_large_drawn[OF d] assms(2) show ?thesis
    by simp
qed



lemma counter_numpy_drawn:
  assumes "shape_ok mu r" and "low < high"
  shows "drawn counter_numpy g r low high
           (map (\<lambda>i. map (\<lambda>m. m + real (g + i)) mu) [0..<num_samples])
           (map (\<lambda>i. low + int (g + num_samples + i) mod (high - low)) [0..<num_samples])
           (g + num_samples + num_samples)"
proof -
  have "list_all (\<lambda>v. low \<le> v \<and> v < high)
          (map (\<lambda>i. low + int (g + num_samples + i) mod (high - low)) [0..<num_samples])"
    using mod_in_range[OF assms(2)] by (simp add: list_all_iff del: of_nat_add)
  with assms show ?thesis
    by (simp add: drawn_def counter_numpy_def list_all_iff mu_def)
qed

lemma first_rows_differ:
  assumes "g \<noteq> h"
  shows "cohort_frame (map (\<lambda>i. map (\<lambda>m. m + real (g + i)) mu) [0..<num_samples]) l F \<noteq>
         cohort_frame (map (\<lambda>i. map (\<lambda>m. m + real (h + i)) mu) [0..<num_samples]) l F'"
proof
  let ?X = "\<lambda>g. map (\<lambda>i. map (\<lambda>m. m + real (g + i)) mu) [0..<num_samples]"
  assume "cohort_frame (?X g) l F = cohort_frame (?X h) l F'"
  then have "map (\<lambda>row. FloatV (row ! 0)) (?X g) = map (\<lambda>row. FloatV (row ! 0)) (?X h)"
    by (simp add: cohort_frame_def numeric_cols_def)
  then have "map (\<lambda>row. FloatV (row ! 0)) (?X g) ! 0 = map (\<lambda>row. FloatV (row ! 0)) (?X h) ! 0"
    by (rule arg_cong)
  then have "real g = real h"
    by (simp add: num_samples_def mu_def)
  with assms show False by simp
qed

lemma cell_large_overwrites_session_frame:
  "\<exists>k'. cell_large counter_numpy session_kernel = Inr k' \<and>
        df_501 k' \<noteq> df_501 session_kernel"
proof -
  note c = counter_numpy_contract
  obtain X5 F5 g5 where
    d5: "drawn counter_numpy (rng fresh_kernel) r_very_large 501 2000 X5 F5 g5"
    using draws_exist[OF c shape_ok_matrices(5), of 501 2000 "rng fresh_kernel"] by auto
  let ?old = "cohort_frame X5 ''very large'' F5"
  have old: "df_501 session_kernel = Some ?old"
    unfolding session_kernel_def cell_very_large_drawn[OF d5] by simp
  obtain X F g' where d: "drawn counter_numpy (rng session_kernel) r_large 101 500 X F g'"
    using draws_exist[OF c shape_ok_matrices(4), of 101 500 "rng session_kernel"] by auto
  note len = drawn_lengths[OF d] drawn_lengths[OF d5]
  from len have "length (map IntV F) = nrows ?old" "map IntV F \<noteq> []"
    by (auto simp: cohort_frame_def nrows_def)
  from loc_set_array_rows[OF this] obtain old' where
    w: "loc_set_array ?old ''firm_size'' (map IntV F) = Inr old'"
    by blast
  have "col ?old ''firm_size'' = Some (map IntV F5)"
    by (simp add: cohort_frame_def col_def numeric_cols_def)
  moreover from len have "F ! 0 < 500" "501 \<le> F5 ! 0"
    by (simp_all add: list_all_length)
  then have "map IntV F ! 0 \<noteq> map IntV F5 ! 0"
    using len by simp
  then have "map IntV F \<noteq> map IntV F5"
    by metis
  ultimately have "old' \<noteq> ?old"
    using col_loc_set_array[OF w] by auto
  moreover from cell_large_drawn[OF d] old w
  have "cell_large counter_numpy session_kernel =
        Inr (session_kernel\<lparr>df_101_500 := Some (labelled_frame X ''large''),
               df_501 := Some old', rng := g'\<rparr>)"
    by simp
  ultimately show ?thesis
    using old by simp
qed


text \<open>
  Claim C4, on the structure of each cell (the distributions are the library's). Four
  cells build their frame from \<open>num_samples\<close> vectors drawn with mean \<open>mu\<close> (all zeros)
  and their matrix, and attach \<open>num_samples\<close> integers drawn from their range as
  \<^verbatim>\<open>firm_size\<close>. The large-firms cell draws both, but its frame
  \<^verbatim>\<open>df_101_500\<close> gets the label only: it has no \<^verbatim>\<open>firm_size\<close> column.
\<close>

theorem firm_size_overlay_per_cell:
  assumes "numpy_contract np"
  shows "mu = [0, 0, 0, 0] \<and>
    (cell_micro np k = Inr k' \<longrightarrow>
       (\<exists>X F g'. drawn np (rng k) r_micro 1 5 X F g' \<and>
          df_1_5 k' = Some (cohort_frame X ''micro'' F))) \<and>
    (cell_small np k = Inr k' \<longrightarrow>
       (\<exists>X F g'. drawn np (rng k) r_small 6 25 X F g' \<and>
          df_6_25 k' = Some (cohort_frame X ''large'' F))) \<and>
    (cell_medium np k = Inr k' \<longrightarrow>
       (\<exists>X F g'. drawn np (rng k) r_medium 26 100 X F g' \<and>
          df_26_100 k' = Some (cohort_frame X ''medium'' F))) \<and>
    (cell_very_large np k = Inr k' \<longrightarrow>
       (\<exists>X F g'. drawn np (rng k) r_very_large 501 2000 X F g' \<and>
          df_501 k' = Some (cohort_frame X ''very large'' F))) \<and>
    (cell_large np k = Inr k' \<longrightarrow>
       (\<exists>X F g'. drawn np (rng k) r_large 101 500 X F g' \<and>
          df_101_500 k' = Some (labelled_frame X ''large'') \<and>
          col (labelled_frame X ''large'') ''firm_size'' = None))"
proof (intro conjI impI)
  show "mu = [0, 0, 0, 0]"
    by (simp add: mu_def eval_nat_numeral)
next
  assume a: "cell_micro np k = Inr k'"
  obtain X F g' where d: "drawn np (rng k) r_micro 1 5 X F g'"
    using draws_exist[OF assms shape_ok_matrices(1), of 1 5 "rng k"] by auto
  from cell_micro_drawn[OF d] a have "df_1_5 k' = Some (cohort_frame X ''micro'' F)"
    by auto
  with d show "\<exists>X F g'. drawn np (rng k) r_micro 1 5 X F g' \<and>
          df_1_5 k' = Some (cohort_frame X ''micro'' F)"
    by blast
next
  assume a: "cell_small np k = Inr k'"
  obtain X F g' where d: "drawn np (rng k) r_small 6 25 X F g'"
    using draws_exist[OF assms shape_ok_matrices(2), of 6 25 "rng k"] by auto
  from cell_small_drawn[OF d] a have "df_6_25 k' = Some (cohort_frame X ''large'' F)"
    by auto
  with d show "\<exists>X F g'. drawn np (rng k) r_small 6 25 X F g' \<and>
          df_6_25 k' = Some (cohort_frame X ''large'' F)"
    by blast
next
  assume a: "cell_medium np k = Inr k'"
  obtain X F g' where d: "drawn np (rng k) r_medium 26 100 X F g'"
    using draws_exist[OF assms shape_ok_matrices(3), of 26 100 "rng k"] by auto
  from cell_medium_drawn[OF d] a have "df_26_100 k' = Some (cohort_frame X ''medium'' F)"
    by auto
  with d show "\<exists>X F g'. drawn np (rng k) r_medium 26 100 X F g' \<and>
          df_26_100 k' = Some (cohort_frame X ''medium'' F)"
    by blast
next
  assume a: "cell_very_large np k = Inr k'"
  obtain X F g' where d: "drawn np (rng k) r_very_large 501 2000 X F g'"
    using draws_exist[OF assms shape_ok_matrices(5), of 501 2000 "rng k"] by auto
  from cell_very_large_drawn[OF d] a have "df_501 k' = Some (cohort_frame X ''very large'' F)"
    by auto
  with d show "\<exists>X F g'. drawn np (rng k) r_very_large 501 2000 X F g' \<and>
          df_501 k' = Some (cohort_frame X ''very large'' F)"
    by blast
next
  assume a: "cell_large np k = Inr k'"
  obtain X F g' where d: "drawn np (rng k) r_large 101 500 X F g'"
    using draws_exist[OF assms shape_ok_matrices(4), of 101 500 "rng k"] by auto
  from cell_large_drawn[OF d] a have "df_101_500 k' = Some (labelled_frame X ''large'')"
    by (auto split: option.splits sum.splits)
  moreover have "col (labelled_frame X ''large'') ''firm_size'' = None"
    by (simp add: labelled_frame_def col_def numeric_cols_def)
  ultimately show "\<exists>X F g'. drawn np (rng k) r_large 101 500 X F g' \<and>
          df_101_500 k' = Some (labelled_frame X ''large'') \<and>
          col (labelled_frame X ''large'') ''firm_size'' = None"
    using d by blast
qed

theorem firm_size_overlay_per_cell_witness:
  "numpy_contract counter_numpy \<and>
   (\<exists>k'. cell_micro counter_numpy fresh_kernel = Inr k' \<and>
      (\<exists>X F. df_1_5 k' = Some (cohort_frame X ''micro'' F))) \<and>
   (\<exists>k'. cell_small counter_numpy fresh_kernel = Inr k' \<and>
      (\<exists>X F. df_6_25 k' = Some (cohort_frame X ''large'' F))) \<and>
   (\<exists>k'. cell_medium counter_numpy fresh_kernel = Inr k' \<and>
      (\<exists>X F. df_26_100 k' = Some (cohort_frame X ''medium'' F))) \<and>
   (\<exists>k'. cell_very_large counter_numpy fresh_kernel = Inr k' \<and>
      (\<exists>X F. df_501 k' = Some (cohort_frame X ''very large'' F))) \<and>
   (\<exists>k'. cell_large counter_numpy session_kernel = Inr k' \<and>
      (\<exists>X. df_101_500 k' = Some (labelled_frame X ''large'') \<and>
           col (labelled_frame X ''large'') ''firm_size'' = None))"
proof -
  note c = counter_numpy_contract
  from cell_completes[OF c, of fresh_kernel] obtain k1 k2 k3 k5 where r:
    "cell_micro counter_numpy fresh_kernel = Inr k1"
    "cell_small counter_numpy fresh_kernel = Inr k2"
    "cell_medium counter_numpy fresh_kernel = Inr k3"
    "cell_very_large counter_numpy fresh_kernel = Inr k5"
    by blast
  from session_kernel_df_501 obtain old where
    "df_501 session_kernel = Some old" "nrows old = num_samples" by blast
  from cell_large_completes[OF c this] obtain k4 where
    r4: "cell_large counter_numpy session_kernel = Inr k4" by blast
  from firm_size_overlay_per_cell[OF c, of fresh_kernel k1] r(1)
  have 1: "\<exists>X F. df_1_5 k1 = Some (cohort_frame X ''micro'' F)" by blast
  from firm_size_overlay_per_cell[OF c, of fresh_kernel k2] r(2)
  have 2: "\<exists>X F. df_6_25 k2 = Some (cohort_frame X ''large'' F)" by blast
  from firm_size_overlay_per_cell[OF c, of fresh_kernel k3] r(3)
  have 3: "\<exists>X F. df_26_100 k3 = Some (cohort_frame X ''medium'' F)" by blast
  from firm_size_overlay_per_cell[OF c, of fresh_kernel k5] r(4)
  have 5: "\<exists>X F. df_501 k5 = Some (cohort_frame X ''very large'' F)" by blast
  from firm_size_overlay_per_cell[OF c, of session_kernel k4] r4
  have 4: "\<exists>X. df_101_500 k4 = Some (labelled_frame X ''large'') \<and>
           col (labelled_frame X ''large'') ''firm_size'' = None" by blast
  from c r r4 1 2 3 4 5 show ?thesis by blast
qed

end
